theory Spec2Isabelle
  imports Main
begin

section \<open>The message sender script and its two variants\<close>

text \<open>
  The repository holds one command-line script in two versions. The enhanced variant
  (the file whose first line is the comment \<^verbatim>\<open>// notifier/send_whatsapp.js\<close>) strips
  \<^verbatim>\<open>+\<close> and spaces from the recipient, falls back to the numeric user id, waits after
  the send and ends through \<^verbatim>\<open>gracefulExit\<close>. The minimal variant
  (\<^verbatim>\<open>patient_watcher_plus/notifier/send_whatsapp.js\<close>) looks the chat up by name only
  and ends in a \<^verbatim>\<open>finally\<close> block.

  The messaging library is outside the script. Its answers are a parameter of the model
  (\<open>world\<close>), and every call that the script makes, every line that it prints and the
  call of \<^verbatim>\<open>process.exit\<close> are recorded, in order, in a list of effects.
\<close>

subsection \<open>Data\<close>

type_synonym err = string

text \<open>A chat of the library: \<^verbatim>\<open>c.name\<close> and \<^verbatim>\<open>c.id.user\<close> are the only fields read.\<close>

record chat =
  name :: string
  id_user :: string

text \<open>
  What the library answers: \<^verbatim>\<open>client.getChats()\<close> and \<^verbatim>\<open>chat.sendMessage(text)\<close>
  resolve (\<open>Inr\<close>) or reject (\<open>Inl\<close>); a resolved send carries \<^verbatim>\<open>res.id.id\<close>;
  \<^verbatim>\<open>client.destroy()\<close> resolves (\<open>None\<close>) or rejects (\<open>Some\<close>). Every call
  settles; a promise of the library that stays pending for ever is not part of the model.
\<close>

record world =
  getChats_reply :: "err + chat list"
  sendMessage_reply :: "chat \<Rightarrow> string \<Rightarrow> err + string"
  destroy_reply :: "err option"

text \<open>
  The observable actions. \<open>Console_error\<close> and \<open>Console_log\<close> carry the arguments of
  the call, \<open>Delay\<close> the milliseconds of the timer, \<open>Process_exit\<close> the exit code.
\<close>

datatype effect =
    Console_error "string list"
  | Console_log "string list"
  | New_client string
  | On string
  | Initialize
  | Qr_generate string
  | Get_chats
  | Send_message chat string
  | Delay nat
  | Destroy
  | Process_exit nat

text \<open>
  How a piece of JavaScript ends: normally with a value, by a thrown value (a rejected
  promise under \<^verbatim>\<open>await\<close>), or by \<^verbatim>\<open>process.exit\<close>, after which nothing of the
  script runs: no \<^verbatim>\<open>catch\<close> and no \<^verbatim>\<open>finally\<close>.
\<close>

datatype 'a completion = Normal 'a | Throw err | Exit nat

type_synonym 'a io = "effect list \<times> 'a completion"

definition ret :: "'a \<Rightarrow> 'a io" where
  "ret x = ([], Normal x)"

definition emit :: "effect \<Rightarrow> unit io" where
  "emit e = ([e], Normal ())"

definition io_bind :: "'a io \<Rightarrow> ('a \<Rightarrow> 'b io) \<Rightarrow> 'b io" where
  "io_bind m f =
     (case m of
        (t, Normal x) \<Rightarrow> (case f x of (t', c) \<Rightarrow> (t @ t', c))
      | (t, Throw e) \<Rightarrow> (t, Throw e)
      | (t, Exit n) \<Rightarrow> (t, Exit n))"

definition try_catch :: "'a io \<Rightarrow> (err \<Rightarrow> 'a io) \<Rightarrow> 'a io" where
  "try_catch m h =
     (case m of
        (t, Throw e) \<Rightarrow> (case h e of (t', c) \<Rightarrow> (t @ t', c))
      | (t, c) \<Rightarrow> (t, c))"

text \<open>
  \<^verbatim>\<open>try { m } finally { f }\<close>: the block \<open>f\<close> runs after \<open>m\<close> has ended normally or by
  a throw; when \<open>f\<close> itself throws or exits, that replaces how \<open>m\<close> ended.
\<close>

definition try_finally :: "'a io \<Rightarrow> unit io \<Rightarrow> 'a io" where
  "try_finally m f =
     (case m of
        (t, Exit n) \<Rightarrow> (t, Exit n)
      | (t, c) \<Rightarrow>
          (case f of
             (t', Normal _) \<Rightarrow> (t @ t', c)
           | (t', Throw e) \<Rightarrow> (t @ t', Throw e)
           | (t', Exit n) \<Rightarrow> (t @ t', Exit n)))"

definition await_reply :: "effect \<Rightarrow> err + 'a \<Rightarrow> 'a io" where
  "await_reply e r = ([e], case r of Inl x \<Rightarrow> Throw x | Inr v \<Rightarrow> Normal v)"

definition process_exit :: "nat \<Rightarrow> 'a io" where
  "process_exit code = ([Process_exit code], Exit code)"

definition console_error :: "string list \<Rightarrow> unit io" where
  "console_error args = emit (Console_error args)"

definition console_log :: "string list \<Rightarrow> unit io" where
  "console_log args = emit (Console_log args)"

subsection \<open>The calls into the library\<close>

definition getChats :: "world \<Rightarrow> chat list io" where
  "getChats w = await_reply Get_chats (getChats_reply w)"

definition sendMessage :: "world \<Rightarrow> chat \<Rightarrow> string \<Rightarrow> string io" where
  "sendMessage w c text = await_reply (Send_message c text) (sendMessage_reply w c text)"

definition destroy :: "world \<Rightarrow> unit io" where
  "destroy w = ([Destroy], case destroy_reply w of None \<Rightarrow> Normal () | Some e \<Rightarrow> Throw e)"

subsection \<open>Command-line arguments\<close>

text \<open>
  \<^verbatim>\<open>const [, , recipientRaw, ...msgParts] = process.argv\<close>: the third element, which is
  \<^verbatim>\<open>undefined\<close> (\<open>None\<close>) when the list is shorter, and the rest after it.
\<close>

definition recipient_arg :: "string list \<Rightarrow> string option" where
  "recipient_arg argv = (if 2 < length argv then Some (argv ! 2) else None)"

definition msgParts :: "string list \<Rightarrow> string list" where
  "msgParts argv = drop 3 argv"

text \<open>\<^verbatim>\<open>Array.prototype.join\<close> on an array of strings.\<close>

fun join :: "string \<Rightarrow> string list \<Rightarrow> string" where
  "join sep [] = []"
| "join sep [x] = x"
| "join sep (x # y # ys) = x @ sep @ join sep (y # ys)"

definition dq :: string where
  "dq = [CHR 0x22]"

definition usage_enhanced :: string where
  "usage_enhanced = ''Usage: node send_whatsapp.js '' @ dq @ ''Recipient'' @ dq @ '' '' @ dq @ ''Message text'' @ dq"

definition usage_minimal :: string where
  "usage_minimal = ''Usage: node send_whatsapp.js '' @ dq @ ''Recipient Name'' @ dq @ '' '' @ dq @ ''Message text'' @ dq"

text \<open>
  \<^verbatim>\<open>s.replace(/[...]/g, rep)\<close> for a character class: every character of the class is
  replaced by \<open>rep\<close>, every other character is kept.
\<close>

fun replace_class :: "char list \<Rightarrow> string \<Rightarrow> string \<Rightarrow> string" where
  "replace_class cls rep [] = []"
| "replace_class cls rep (c # cs) =
     (if c \<in> set cls then rep @ replace_class cls rep cs else c # replace_class cls rep cs)"

text \<open>\<^verbatim>\<open>const recipient = recipientRaw.replace(/[+ ]/g, '')\<close>\<close>

definition normalize_recipient :: "string \<Rightarrow> string" where
  "normalize_recipient recipientRaw = replace_class ''+ '' [] recipientRaw"

text \<open>The wording of the specification: the recipient with every plus and space removed.\<close>

definition strip_plus_space_spec :: "string \<Rightarrow> string" where
  "strip_plus_space_spec s = filter (\<lambda>c. c \<noteq> CHR ''+'' \<and> c \<noteq> CHR '' '') s"

subsection \<open>Enhanced variant\<close>

text \<open>
  \<^verbatim>\<open>async function gracefulExit(code = 0) { try { await client.destroy(); } catch { } process.exit(code); }\<close>
  Every call in the script passes the code.
\<close>

definition gracefulExit :: "world \<Rightarrow> nat \<Rightarrow> 'a io" where
  "gracefulExit w code =
     io_bind (try_catch (destroy w) (\<lambda>_. ret ())) (\<lambda>_. process_exit code)"

definition send :: "world \<Rightarrow> string \<Rightarrow> chat \<Rightarrow> unit io" where
  "send w message c =
     try_catch
       (io_bind (sendMessage w c message) (\<lambda>res.
        io_bind (console_log [''Message queued:'', res]) (\<lambda>_.
        io_bind (emit (Delay 3000)) (\<lambda>_.
        gracefulExit w 0))))
       (\<lambda>e.
        io_bind (console_error [''Failed to send message:'', e]) (\<lambda>_.
        gracefulExit w 1))"

text \<open>
  \<^verbatim>\<open>chats.find(c => c.name === recipientRaw) || chats.find(c => c.id.user === recipient)\<close>:
  a chat object is truthy, so the second search runs only when the first finds nothing.
\<close>

definition find_chat :: "string \<Rightarrow> string \<Rightarrow> chat list \<Rightarrow> chat option" where
  "find_chat recipientRaw recipient chats =
     (case List.find (\<lambda>c. name c = recipientRaw) chats of
        Some c \<Rightarrow> Some c
      | None \<Rightarrow> List.find (\<lambda>c. id_user c = recipient) chats)"

definition not_found_text :: "string \<Rightarrow> string" where
  "not_found_text r = ''Chat '' @ dq @ r @ dq @ '' not found.''"

definition on_ready_enhanced :: "world \<Rightarrow> string \<Rightarrow> string \<Rightarrow> string \<Rightarrow> unit io" where
  "on_ready_enhanced w recipientRaw recipient message =
     try_catch
       (io_bind (getChats w) (\<lambda>chats.
          case find_chat recipientRaw recipient chats of
            None \<Rightarrow>
              io_bind (console_error [not_found_text recipientRaw]) (\<lambda>_. gracefulExit w 2)
          | Some c \<Rightarrow> send w message c))
       (\<lambda>e.
        io_bind (console_error [''Unexpected error:'', e]) (\<lambda>_. gracefulExit w 3))"

subsection \<open>Minimal variant\<close>

definition on_ready_minimal :: "world \<Rightarrow> string \<Rightarrow> string \<Rightarrow> unit io" where
  "on_ready_minimal w recipient message =
     try_finally
       (try_catch
          (io_bind (getChats w) (\<lambda>chats.
             case List.find (\<lambda>c. name c = recipient) chats of
               None \<Rightarrow> console_error [not_found_text recipient]
             | Some c \<Rightarrow>
                 io_bind (sendMessage w c message) (\<lambda>_.
                 console_log [''Message sent:'', message])))
          (\<lambda>e. console_error [''Failed to send message:'', e]))
       (io_bind (destroy w) (\<lambda>_. process_exit 0))"

subsection \<open>Events and the whole run\<close>

datatype event = Qr string | Ready | Auth_failure string

text \<open>
  The state of the process after a run: still waiting for events, ended by
  \<^verbatim>\<open>process.exit\<close>, or left with a rejected handler promise that nothing of the script
  catches (what the runtime does with it is not the script's doing).
\<close>

datatype status = Running | Exited nat | Rejected err

definition on_qr_enhanced :: "string \<Rightarrow> unit io" where
  "on_qr_enhanced qr =
     io_bind (emit (Qr_generate qr)) (\<lambda>_. console_log [''Scan the QR to authenticate.''])"

definition on_qr_minimal :: "string \<Rightarrow> unit io" where
  "on_qr_minimal qr =
     io_bind (emit (Qr_generate qr))
       (\<lambda>_. console_log [''Scan the QR code above in WhatsApp to authenticate.''])"

text \<open>\<^verbatim>\<open>client.on('auth_failure', m => console.error('Auth failure', m))\<close>, in both variants.\<close>

definition on_auth_failure :: "string \<Rightarrow> unit io" where
  "on_auth_failure m = console_error [''Auth failure'', m]"

definition handle_enhanced :: "world \<Rightarrow> string \<Rightarrow> string \<Rightarrow> string \<Rightarrow> event \<Rightarrow> unit io" where
  "handle_enhanced w recipientRaw recipient message ev =
     (case ev of
        Qr qr \<Rightarrow> on_qr_enhanced qr
      | Ready \<Rightarrow> on_ready_enhanced w recipientRaw recipient message
      | Auth_failure m \<Rightarrow> on_auth_failure m)"

definition handle_minimal :: "world \<Rightarrow> string \<Rightarrow> string \<Rightarrow> event \<Rightarrow> unit io" where
  "handle_minimal w recipient message ev =
     (case ev of
        Qr qr \<Rightarrow> on_qr_minimal qr
      | Ready \<Rightarrow> on_ready_minimal w recipient message
      | Auth_failure m \<Rightarrow> on_auth_failure m)"

text \<open>
  The library delivers the events one after the other, and a handler runs to its end
  before the next event is taken. A handler that exits ends the process, and the events
  after it are never seen; the same holds in the model after a handler whose promise is
  rejected.
\<close>

fun event_loop :: "(event \<Rightarrow> unit io) \<Rightarrow> event list \<Rightarrow> effect list \<times> status" where
  "event_loop h [] = ([], Running)"
| "event_loop h (ev # evs) =
     (case h ev of
        (t, Normal _) \<Rightarrow> (case event_loop h evs of (t', s) \<Rightarrow> (t @ t', s))
      | (t, Throw e) \<Rightarrow> (t, Rejected e)
      | (t, Exit n) \<Rightarrow> (t, Exited n))"

definition client_setup :: "unit io" where
  "client_setup =
     io_bind (emit (New_client ''patient-watcher'')) (\<lambda>_.
     io_bind (emit (On ''qr'')) (\<lambda>_.
     io_bind (emit (On ''ready'')) (\<lambda>_.
     io_bind (emit (On ''auth_failure'')) (\<lambda>_.
     emit Initialize))))"

text \<open>
  The statements at the top level of each script, up to \<^verbatim>\<open>client.initialize()\<close>.
  \<^verbatim>\<open>!recipientRaw\<close> holds for \<^verbatim>\<open>undefined\<close> and for the empty string,
  \<^verbatim>\<open>!message\<close> for the empty string; the result carries the constants that the
  handlers read.
\<close>

definition usage_exit :: "string \<Rightarrow> 'a io" where
  "usage_exit usage = io_bind (console_error [usage]) (\<lambda>_. process_exit 1)"

definition script_enhanced :: "string list \<Rightarrow> (string \<times> string \<times> string) io" where
  "script_enhanced argv =
     (let message = join '' '' (msgParts argv)
      in case recipient_arg argv of
           None \<Rightarrow> usage_exit usage_enhanced
         | Some recipientRaw \<Rightarrow>
             if recipientRaw = [] \<or> message = [] then usage_exit usage_enhanced
             else io_bind client_setup
                    (\<lambda>_. ret (recipientRaw, normalize_recipient recipientRaw, message)))"

definition script_minimal :: "string list \<Rightarrow> (string \<times> string) io" where
  "script_minimal argv =
     (let message = join '' '' (msgParts argv)
      in case recipient_arg argv of
           None \<Rightarrow> usage_exit usage_minimal
         | Some recipient \<Rightarrow>
             if recipient = [] \<or> message = [] then usage_exit usage_minimal
             else io_bind client_setup (\<lambda>_. ret (recipient, message)))"

definition run_enhanced :: "string list \<Rightarrow> world \<Rightarrow> event list \<Rightarrow> effect list \<times> status" where
  "run_enhanced argv w evs =
     (case script_enhanced argv of
        (t, Normal (recipientRaw, recipient, message)) \<Rightarrow>
          (case event_loop (handle_enhanced w recipientRaw recipient message) evs of
             (t', s) \<Rightarrow> (t @ t', s))
      | (t, Throw e) \<Rightarrow> (t, Rejected e)
      | (t, Exit n) \<Rightarrow> (t, Exited n))"

definition run_minimal :: "string list \<Rightarrow> world \<Rightarrow> event list \<Rightarrow> effect list \<times> status" where
  "run_minimal argv w evs =
     (case script_minimal argv of
        (t, Normal (recipient, message)) \<Rightarrow>
          (case event_loop (handle_minimal w recipient message) evs of
             (t', s) \<Rightarrow> (t @ t', s))
      | (t, Throw e) \<Rightarrow> (t, Rejected e)
      | (t, Exit n) \<Rightarrow> (t, Exited n))"

subsection \<open>Observations on a run\<close>

fun is_send :: "effect \<Rightarrow> bool" where
  "is_send (Send_message c m) = True"
| "is_send e = False"

text \<open>An effect that creates or uses the session object.\<close>

fun is_session :: "effect \<Rightarrow> bool" where
  "is_session (New_client k) = True"
| "is_session (On k) = True"
| "is_session Initialize = True"
| "is_session Get_chats = True"
| "is_session (Send_message c m) = True"
| "is_session Destroy = True"
| "is_session e = False"

fun is_exit :: "effect \<Rightarrow> bool" where
  "is_exit (Process_exit n) = True"
| "is_exit e = False"

definition destroys :: "effect list \<Rightarrow> nat" where
  "destroys t = length (filter (\<lambda>e. e = Destroy) t)"

text \<open>Recipient and message are both present and not empty.\<close>

definition args_ok :: "string list \<Rightarrow> bool" where
  "args_ok argv =
     (case recipient_arg argv of
        None \<Rightarrow> False
      | Some r \<Rightarrow> r \<noteq> [] \<and> join '' '' (msgParts argv) \<noteq> [])"

text \<open>
  What a run has done when the ready event arrives after the events \<open>pre\<close>: the
  session set-up, then the output of the login-code and authentication-failure handlers.
\<close>

definition idle_enhanced :: "event \<Rightarrow> effect list" where
  "idle_enhanced ev =
     (case ev of
        Qr qr \<Rightarrow> fst (on_qr_enhanced qr)
      | Ready \<Rightarrow> []
      | Auth_failure m \<Rightarrow> fst (on_auth_failure m))"

definition idle_minimal :: "event \<Rightarrow> effect list" where
  "idle_minimal ev =
     (case ev of
        Qr qr \<Rightarrow> fst (on_qr_minimal qr)
      | Ready \<Rightarrow> []
      | Auth_failure m \<Rightarrow> fst (on_auth_failure m))"

definition prelude_enhanced :: "event list \<Rightarrow> effect list" where
  "prelude_enhanced pre = fst client_setup @ concat (map idle_enhanced pre)"

definition prelude_minimal :: "event list \<Rightarrow> effect list" where
  "prelude_minimal pre = fst client_setup @ concat (map idle_minimal pre)"

text \<open>
  The end of the minimal ready handler after the effects \<open>t\<close> of its
  \<^verbatim>\<open>try\<close>/\<^verbatim>\<open>catch\<close> part: \<^verbatim>\<open>finally { await client.destroy(); process.exit(0); }\<close>.
\<close>

definition minimal_finally :: "world \<Rightarrow> effect list \<Rightarrow> unit io" where
  "minimal_finally w t =
     (case destroy_reply w of
        None \<Rightarrow> (t @ [Destroy, Process_exit 0], Exit 0)
      | Some e \<Rightarrow> (t @ [Destroy], Throw e))"

subsection \<open>Example inputs\<close>

definition reply_ok :: "chat \<Rightarrow> string \<Rightarrow> err + string" where
  "reply_ok c text = Inr ''3EB0A1''"

definition reply_fail :: "chat \<Rightarrow> string \<Rightarrow> err + string" where
  "reply_fail c text = Inl ''Error: send failed''"

definition dr_smith :: chat where
  "dr_smith = \<lparr>name = ''Dr. Smith'', id_user = ''15551234567''\<rparr>"

definition argv_smith :: "string list" where
  "argv_smith = [''node'', ''send_whatsapp.js'', ''Dr. Smith'', ''Patient'', ''stable'']"

definition argv_unknown :: "string list" where
  "argv_unknown = [''node'', ''send_whatsapp.js'', ''Nobody'', ''Reminder'']"

definition world_ok :: world where
  "world_ok = \<lparr>getChats_reply = Inr [dr_smith], sendMessage_reply = reply_ok,
                destroy_reply = None\<rparr>"

definition world_send_fails :: world where
  "world_send_fails = \<lparr>getChats_reply = Inr [dr_smith], sendMessage_reply = reply_fail,
                        destroy_reply = None\<rparr>"

definition world_destroy_fails :: world where
  "world_destroy_fails = \<lparr>getChats_reply = Inr [dr_smith], sendMessage_reply = reply_ok,
                           destroy_reply = Some ''Error: destroy failed''\<rparr>"

definition world_both_fail :: world where
  "world_both_fail = \<lparr>getChats_reply = Inr [dr_smith], sendMessage_reply = reply_fail,
                       destroy_reply = Some ''Error: destroy failed''\<rparr>"

definition alice :: chat where
  "alice = \<lparr>name = ''Alice'', id_user = ''4477''\<rparr>"

definition numbered :: chat where
  "numbered = \<lparr>name = ''4477'', id_user = ''999''\<rparr>"

definition argv_number :: "string list" where
  "argv_number = [''node'', ''send_whatsapp.js'', ''4477'', ''Reminder'']"

definition world_numbers :: world where
  "world_numbers = \<lparr>getChats_reply = Inr [alice, numbered], sendMessage_reply = reply_ok,
                     destroy_reply = None\<rparr>"

definition smith_other :: chat where
  "smith_other = \<lparr>name = ''Dr. Smith'', id_user = ''15550000001''\<rparr>"

definition bob :: chat where
  "bob = \<lparr>name = ''Bob'', id_user = ''4477''\<rparr>"

definition blank :: chat where
  "blank = \<lparr>name = ''Group'', id_user = []\<rparr>"

definition argv_plus :: "string list" where
  "argv_plus = [''node'', ''send_whatsapp.js'', ''+44 77'', ''Reminder'']"

definition argv_signs :: "string list" where
  "argv_signs = [''node'', ''send_whatsapp.js'', ''+ +'', ''Reminder'']"

definition world_twins :: world where
  "world_twins = \<lparr>getChats_reply = Inr [alice, smith_other, dr_smith],
                   sendMessage_reply = reply_ok, destroy_reply = None\<rparr>"

definition world_same_number :: world where
  "world_same_number = \<lparr>getChats_reply = Inr [alice, bob], sendMessage_reply = reply_ok,
                         destroy_reply = None\<rparr>"

definition world_blank :: world where
  "world_blank = \<lparr>getChats_reply = Inr [alice, blank], sendMessage_reply = reply_ok,
                   destroy_reply = None\<rparr>"

definition world_three :: world where
  "world_three = \<lparr>getChats_reply = Inr [alice, bob, numbered], sendMessage_reply = reply_ok,
                   destroy_reply = None\<rparr>"

section \<open>Properties\<close>

subsection \<open>How each part of the scripts ends\<close>

lemmas io_defs = ret_def emit_def io_bind_def try_catch_def try_finally_def await_reply_def
  process_exit_def console_error_def console_log_def getChats_def sendMessage_def destroy_def

lemma gracefulExit_eq: "gracefulExit w code = ([Destroy, Process_exit code], Exit code)"
  by (cases "destroy_reply w") (simp_all add: gracefulExit_def io_defs)

lemma send_resolved:
  "sendMessage_reply w c m = Inr res \<Longrightarrow>
   send w m c = ([Send_message c m, Console_log [''Message queued:'', res], Delay 3000,
                  Destroy, Process_exit 0], Exit 0)"
  by (simp add: send_def gracefulExit_eq io_defs)

lemma send_rejected:
  "sendMessage_reply w c m = Inl e \<Longrightarrow>
   send w m c = ([Send_message c m, Console_error [''Failed to send message:'', e],
                  Destroy, Process_exit 1], Exit 1)"
  by (simp add: send_def gracefulExit_eq io_defs)

lemma on_ready_enhanced_lookup_rejected:
  "getChats_reply w = Inl e \<Longrightarrow>
   on_ready_enhanced w raw rcp m =
     ([Get_chats, Console_error [''Unexpected error:'', e], Destroy, Process_exit 3], Exit 3)"
  by (simp add: on_ready_enhanced_def gracefulExit_eq io_defs)

lemma on_ready_enhanced_not_found:
  "getChats_reply w = Inr chats \<Longrightarrow> find_chat raw rcp chats = None \<Longrightarrow>
   on_ready_enhanced w raw rcp m =
     ([Get_chats, Console_error [not_found_text raw], Destroy, Process_exit 2], Exit 2)"
  by (simp add: on_ready_enhanced_def gracefulExit_eq io_defs)

lemma on_ready_enhanced_sent:
  "getChats_reply w = Inr chats \<Longrightarrow> find_chat raw rcp chats = Some c \<Longrightarrow>
   sendMessage_reply w c m = Inr res \<Longrightarrow>
   on_ready_enhanced w raw rcp m =
     ([Get_chats, Send_message c m, Console_log [''Message queued:'', res], Delay 3000,
       Destroy, Process_exit 0], Exit 0)"
  by (simp add: on_ready_enhanced_def send_resolved io_defs)

lemma on_ready_enhanced_send_rejected:
  "getChats_reply w = Inr chats \<Longrightarrow> find_chat raw rcp chats = Some c \<Longrightarrow>
   sendMessage_reply w c m = Inl e \<Longrightarrow>
   on_ready_enhanced w raw rcp m =
     ([Get_chats, Send_message c m, Console_error [''Failed to send message:'', e],
       Destroy, Process_exit 1], Exit 1)"
  by (simp add: on_ready_enhanced_def send_rejected io_defs)

lemma on_ready_minimal_lookup_rejected:
  "getChats_reply w = Inl e \<Longrightarrow>
   on_ready_minimal w r m = minimal_finally w [Get_chats, Console_error [''Failed to send message:'', e]]"
  by (cases "destroy_reply w") (simp_all add: on_ready_minimal_def minimal_finally_def io_defs)

lemma on_ready_minimal_not_found:
  "getChats_reply w = Inr chats \<Longrightarrow> List.find (\<lambda>c. name c = r) chats = None \<Longrightarrow>
   on_ready_minimal w r m = minimal_finally w [Get_chats, Console_error [not_found_text r]]"
  by (cases "destroy_reply w") (simp_all add: on_ready_minimal_def minimal_finally_def io_defs)

lemma on_ready_minimal_sent:
  "getChats_reply w = Inr chats \<Longrightarrow> List.find (\<lambda>c. name c = r) chats = Some c \<Longrightarrow>
   sendMessage_reply w c m = Inr res \<Longrightarrow>
   on_ready_minimal w r m = minimal_finally w [Get_chats, Send_message c m, Console_log [''Message sent:'', m]]"
  by (cases "destroy_reply w") (simp_all add: on_ready_minimal_def minimal_finally_def io_defs)

lemma on_ready_minimal_send_rejected:
  "getChats_reply w = Inr chats \<Longrightarrow> List.find (\<lambda>c. name c = r) chats = Some c \<Longrightarrow>
   sendMessage_reply w c m = Inl e \<Longrightarrow>
   on_ready_minimal w r m =
     minimal_finally w [Get_chats, Send_message c m, Console_error [''Failed to send message:'', e]]"
  by (cases "destroy_reply w") (simp_all add: on_ready_minimal_def minimal_finally_def io_defs)

lemma client_setup_eq:
  "client_setup = ([New_client ''patient-watcher'', On ''qr'', On ''ready'', On ''auth_failure'',
                    Initialize], Normal ())"
  by (simp add: client_setup_def io_defs)

lemma script_enhanced_ok:
  "args_ok argv \<Longrightarrow>
   script_enhanced argv =
     (fst client_setup, Normal (argv ! 2, normalize_recipient (argv ! 2), join '' '' (drop 3 argv)))"
  by (auto simp add: args_ok_def script_enhanced_def recipient_arg_def msgParts_def
        client_setup_eq io_defs split: if_splits)

lemma script_minimal_ok:
  "args_ok argv \<Longrightarrow>
   script_minimal argv = (fst client_setup, Normal (argv ! 2, join '' '' (drop 3 argv)))"
  by (auto simp add: args_ok_def script_minimal_def recipient_arg_def msgParts_def
        client_setup_eq io_defs split: if_splits)

lemma script_enhanced_usage:
  "\<not> args_ok argv \<Longrightarrow>
   script_enhanced argv = ([Console_error [usage_enhanced], Process_exit 1], Exit 1)"
  by (auto simp add: args_ok_def script_enhanced_def usage_exit_def io_defs Let_def
        split: option.splits)

lemma script_minimal_usage:
  "\<not> args_ok argv \<Longrightarrow>
   script_minimal argv = ([Console_error [usage_minimal], Process_exit 1], Exit 1)"
  by (auto simp add: args_ok_def script_minimal_def usage_exit_def io_defs Let_def
        split: option.splits)

lemma idle_handlers_normal:
  "ev \<noteq> Ready \<Longrightarrow> handle_enhanced w a b c ev = (idle_enhanced ev, Normal ())"
  "ev \<noteq> Ready \<Longrightarrow> handle_minimal w a c ev = (idle_minimal ev, Normal ())"
  by (cases ev; simp add: handle_enhanced_def handle_minimal_def idle_enhanced_def idle_minimal_def
        on_qr_enhanced_def on_qr_minimal_def on_auth_failure_def io_defs)+

lemma event_loop_skip_enhanced:
  "Ready \<notin> set pre \<Longrightarrow>
   event_loop (handle_enhanced w a b c) (pre @ evs) =
     (concat (map idle_enhanced pre) @ fst (event_loop (handle_enhanced w a b c) evs),
      snd (event_loop (handle_enhanced w a b c) evs))"
proof (induction pre)
  case Nil
  show ?case by simp
next
  case (Cons ev pre)
  then have "ev \<noteq> Ready" and "Ready \<notin> set pre" by auto
  with Cons.IH show ?case
    by (simp add: idle_handlers_normal split: prod.splits)
qed

lemma event_loop_skip_minimal:
  "Ready \<notin> set pre \<Longrightarrow>
   event_loop (handle_minimal w a c) (pre @ evs) =
     (concat (map idle_minimal pre) @ fst (event_loop (handle_minimal w a c) evs),
      snd (event_loop (handle_minimal w a c) evs))"
proof (induction pre)
  case Nil
  show ?case by simp
next
  case (Cons ev pre)
  then have "ev \<noteq> Ready" and "Ready \<notin> set pre" by auto
  with Cons.IH show ?case
    by (simp add: idle_handlers_normal split: prod.splits)
qed

subsection \<open>How a whole run ends\<close>

lemma run_enhanced_at_ready:
  assumes "args_ok argv" and "Ready \<notin> set pre"
    and "on_ready_enhanced w (argv ! 2) (normalize_recipient (argv ! 2))
           (join '' '' (drop 3 argv)) = (t, Exit n)"
  shows "run_enhanced argv w (pre @ Ready # post) = (prelude_enhanced pre @ t, Exited n)"
  using assms
  by (simp add: run_enhanced_def script_enhanced_ok event_loop_skip_enhanced
        handle_enhanced_def prelude_enhanced_def)

lemma run_minimal_at_ready:
  assumes "args_ok argv" and "Ready \<notin> set pre"
    and "on_ready_minimal w (argv ! 2) (join '' '' (drop 3 argv)) = (t, Exit n)"
  shows "run_minimal argv w (pre @ Ready # post) = (prelude_minimal pre @ t, Exited n)"
  using assms
  by (simp add: run_minimal_def script_minimal_ok event_loop_skip_minimal
        handle_minimal_def prelude_minimal_def)

lemma run_minimal_at_ready_rejected:
  assumes "args_ok argv" and "Ready \<notin> set pre"
    and "on_ready_minimal w (argv ! 2) (join '' '' (drop 3 argv)) = (t, Throw e)"
  shows "run_minimal argv w (pre @ Ready # post) = (prelude_minimal pre @ t, Rejected e)"
  using assms
  by (simp add: run_minimal_def script_minimal_ok event_loop_skip_minimal
        handle_minimal_def prelude_minimal_def)

lemma run_enhanced_idle:
  assumes "args_ok argv" and "Ready \<notin> set evs"
  shows "run_enhanced argv w evs = (prelude_enhanced evs, Running)"
  using assms event_loop_skip_enhanced [of evs w _ _ _ "[]"]
  by (simp add: run_enhanced_def script_enhanced_ok prelude_enhanced_def)

lemma run_minimal_idle:
  assumes "args_ok argv" and "Ready \<notin> set evs"
  shows "run_minimal argv w evs = (prelude_minimal evs, Running)"
  using assms event_loop_skip_minimal [of evs w _ _ "[]"]
  by (simp add: run_minimal_def script_minimal_ok prelude_minimal_def)

lemma run_enhanced_usage:
  "\<not> args_ok argv \<Longrightarrow>
   run_enhanced argv w evs = ([Console_error [usage_enhanced], Process_exit 1], Exited 1)"
  by (simp add: run_enhanced_def script_enhanced_usage)

lemma run_minimal_usage:
  "\<not> args_ok argv \<Longrightarrow>
   run_minimal argv w evs = ([Console_error [usage_minimal], Process_exit 1], Exited 1)"
  by (simp add: run_minimal_def script_minimal_usage)

lemma event_loop_status_skip:
  "h ev = (t, Normal ()) \<Longrightarrow>
   snd (event_loop h (evs1 @ ev # evs2)) = snd (event_loop h (evs1 @ evs2))"
  by (induction evs1) (auto split: prod.splits completion.splits)

lemma args_ok_iff:
  "args_ok argv \<longleftrightarrow> 2 < length argv \<and> argv ! 2 \<noteq> [] \<and> join '' '' (drop 3 argv) \<noteq> []"
  by (simp add: args_ok_def recipient_arg_def msgParts_def)

lemma idle_observed:
  "filter is_send (idle_enhanced ev) = []" "filter is_send (idle_minimal ev) = []"
  "filter is_exit (idle_enhanced ev) = []" "filter is_exit (idle_minimal ev) = []"
  "filter (\<lambda>e. e = Destroy) (idle_enhanced ev) = []"
  "filter (\<lambda>e. e = Destroy) (idle_minimal ev) = []"
  by (cases ev; simp add: idle_enhanced_def idle_minimal_def on_qr_enhanced_def
        on_qr_minimal_def on_auth_failure_def io_defs)+

lemma filter_concat_idle:
  "(\<And>ev. filter P (f ev) = []) \<Longrightarrow> filter P (concat (map f pre)) = []"
  by (induction pre) simp_all

lemma prelude_observed:
  "filter is_send (prelude_enhanced pre) = []" "filter is_send (prelude_minimal pre) = []"
  "filter is_exit (prelude_enhanced pre) = []" "filter is_exit (prelude_minimal pre) = []"
  "destroys (prelude_enhanced pre) = 0" "destroys (prelude_minimal pre) = 0"
  by (simp_all add: prelude_enhanced_def prelude_minimal_def destroys_def client_setup_eq
        filter_concat_idle idle_observed)

lemma run_minimal_finally:
  assumes "args_ok argv" and "Ready \<notin> set pre"
    and "on_ready_minimal w (argv ! 2) (join '' '' (drop 3 argv)) = minimal_finally w t"
  shows "run_minimal argv w (pre @ Ready # post) =
           (case destroy_reply w of
              None \<Rightarrow> (prelude_minimal pre @ t @ [Destroy, Process_exit 0], Exited 0)
            | Some e \<Rightarrow> (prelude_minimal pre @ t @ [Destroy], Rejected e))"
proof (cases "destroy_reply w")
  case None
  with assms(3) have "on_ready_minimal w (argv ! 2) (join '' '' (drop 3 argv))
      = (t @ [Destroy, Process_exit 0], Exit 0)"
    by (simp add: minimal_finally_def)
  from run_minimal_at_ready [OF assms(1,2) this] None show ?thesis by simp
next
  case (Some e)
  with assms(3) have "on_ready_minimal w (argv ! 2) (join '' '' (drop 3 argv))
      = (t @ [Destroy], Throw e)"
    by (simp add: minimal_finally_def)
  from run_minimal_at_ready_rejected [OF assms(1,2) this] Some show ?thesis by simp
qed

lemma on_ready_enhanced_ignores_destroy_reply:
  "on_ready_enhanced (w\<lparr>destroy_reply := d\<rparr>) raw rcp m = on_ready_enhanced w raw rcp m"
  by (simp add: on_ready_enhanced_def send_def gracefulExit_eq getChats_def sendMessage_def
        cong: option.case_cong)

lemma run_enhanced_ignores_destroy_reply:
  "run_enhanced argv (w\<lparr>destroy_reply := d\<rparr>) evs = run_enhanced argv w evs"
proof -
  have "handle_enhanced (w\<lparr>destroy_reply := d\<rparr>) raw rcp m = handle_enhanced w raw rcp m"
    for raw rcp m
    by (rule ext)
       (simp add: handle_enhanced_def on_ready_enhanced_ignores_destroy_reply split: event.splits)
  then show ?thesis
    by (simp add: run_enhanced_def split: prod.splits completion.splits)
qed

lemma on_ready_enhanced_exits:
  "\<exists>t n. on_ready_enhanced w raw rcp m = (t, Exit n) \<and> n \<le> 3
     \<and> destroys t = 1 \<and> filter is_exit t = [Process_exit n]"
proof (cases "getChats_reply w")
  case (Inl e)
  then show ?thesis
    by (simp add: on_ready_enhanced_lookup_rejected destroys_def)
next
  case (Inr chats)
  show ?thesis
  proof (cases "find_chat raw rcp chats")
    case None
    with Inr show ?thesis
      by (simp add: on_ready_enhanced_not_found destroys_def)
  next
    case (Some c)
    with Inr show ?thesis
      by (cases "sendMessage_reply w c m")
         (simp_all add: on_ready_enhanced_sent on_ready_enhanced_send_rejected destroys_def)
  qed
qed

lemma on_ready_minimal_finally:
  "\<exists>t. on_ready_minimal w r m = minimal_finally w t
     \<and> destroys t = 0 \<and> filter is_exit t = []"
proof (cases "getChats_reply w")
  case (Inl e)
  then have "on_ready_minimal w r m
      = minimal_finally w [Get_chats, Console_error [''Failed to send message:'', e]]"
    by (rule on_ready_minimal_lookup_rejected)
  then show ?thesis
    by (intro exI conjI) (assumption, simp_all add: destroys_def)
next
  case (Inr chats)
  show ?thesis
  proof (cases "List.find (\<lambda>c. name c = r) chats")
    case None
    from on_ready_minimal_not_found [OF Inr None] show ?thesis
      by (intro exI conjI) (assumption, simp_all add: destroys_def)
  next
    case (Some c)
    show ?thesis
    proof (cases "sendMessage_reply w c m")
      case (Inl e)
      from on_ready_minimal_send_rejected [OF Inr Some Inl] show ?thesis
        by (intro exI conjI) (assumption, simp_all add: destroys_def)
    next
      case (Inr res)
      from on_ready_minimal_sent [OF \<open>getChats_reply w = Inr chats\<close> Some Inr] show ?thesis
        by (intro exI conjI) (assumption, simp_all add: destroys_def)
    qed
  qed
qed

lemma enhanced_release_once:
  assumes "args_ok argv" and "Ready \<notin> set pre"
  shows "\<exists>n. snd (run_enhanced argv w (pre @ Ready # post)) = Exited n
           \<and> destroys (fst (run_enhanced argv w (pre @ Ready # post))) = 1
           \<and> filter is_exit (fst (run_enhanced argv w (pre @ Ready # post))) = [Process_exit n]"
proof -
  obtain t n where h: "on_ready_enhanced w (argv ! 2) (normalize_recipient (argv ! 2))
      (join '' '' (drop 3 argv)) = (t, Exit n)" "destroys t = 1" "filter is_exit t = [Process_exit n]"
    using on_ready_enhanced_exits by blast
  from run_enhanced_at_ready [OF assms h(1)] h(2,3) prelude_observed(3,5) [of pre]
  show ?thesis
    by (simp add: destroys_def)
qed

lemma minimal_release_once:
  assumes "args_ok argv" and "Ready \<notin> set pre"
  shows "destroys (fst (run_minimal argv w (pre @ Ready # post))) = 1
       \<and> snd (run_minimal argv w (pre @ Ready # post))
           = (case destroy_reply w of None \<Rightarrow> Exited 0 | Some e \<Rightarrow> Rejected e)
       \<and> filter is_exit (fst (run_minimal argv w (pre @ Ready # post)))
           = (case destroy_reply w of None \<Rightarrow> [Process_exit 0] | Some e \<Rightarrow> [])"
proof -
  obtain t where h: "on_ready_minimal w (argv ! 2) (join '' '' (drop 3 argv)) = minimal_finally w t"
      "destroys t = 0" "filter is_exit t = []"
    using on_ready_minimal_finally by blast
  from run_minimal_finally [OF assms h(1)] h(2,3) prelude_observed(4,6) [of pre]
  show ?thesis
    by (cases "destroy_reply w") (simp_all add: destroys_def)
qed

lemma enhanced_sends_to_found:
  assumes "args_ok argv" and "Ready \<notin> set pre" and "getChats_reply w = Inr chats"
    and "find_chat (argv ! 2) (normalize_recipient (argv ! 2)) chats = Some c"
  shows "filter is_send (fst (run_enhanced argv w (pre @ Ready # post)))
           = [Send_message c (join '' '' (drop 3 argv))]"
proof (cases "sendMessage_reply w c (join '' '' (drop 3 argv))")
  case (Inl e)
  from run_enhanced_at_ready [OF assms(1,2) on_ready_enhanced_send_rejected [OF assms(3,4) Inl]]
  show ?thesis by (simp add: prelude_observed)
next
  case (Inr res)
  from run_enhanced_at_ready [OF assms(1,2) on_ready_enhanced_sent [OF assms(3,4) Inr]]
  show ?thesis by (simp add: prelude_observed)
qed

lemma minimal_sends_to_found:
  assumes "args_ok argv" and "Ready \<notin> set pre" and "getChats_reply w = Inr chats"
    and "List.find (\<lambda>x. name x = argv ! 2) chats = Some c"
  shows "filter is_send (fst (run_minimal argv w (pre @ Ready # post)))
           = [Send_message c (join '' '' (drop 3 argv))]"
proof (cases "sendMessage_reply w c (join '' '' (drop 3 argv))")
  case (Inl e)
  from run_minimal_finally [OF assms(1,2) on_ready_minimal_send_rejected [OF assms(3,4) Inl]]
  show ?thesis by (cases "destroy_reply w") (simp_all add: prelude_observed)
next
  case (Inr res)
  from run_minimal_finally [OF assms(1,2) on_ready_minimal_sent [OF assms(3,4) Inr]]
  show ?thesis by (cases "destroy_reply w") (simp_all add: prelude_observed)
qed

lemma find_earliest:
  "i < length xs \<Longrightarrow> P (xs ! i) \<Longrightarrow> \<forall>j<i. \<not> P (xs ! j) \<Longrightarrow> List.find P xs = Some (xs ! i)"
  by (simp add: find_Some_iff) blast

lemma find_chat_by_name:
  "List.find (\<lambda>x. name x = raw) chats = Some c \<Longrightarrow> find_chat raw rcp chats = Some c"
  by (simp add: find_chat_def)

lemma find_chat_fallback:
  "\<forall>x\<in>set chats. name x \<noteq> raw \<Longrightarrow>
   find_chat raw rcp chats = List.find (\<lambda>x. id_user x = rcp) chats"
proof -
  assume "\<forall>x\<in>set chats. name x \<noteq> raw"
  then have "List.find (\<lambda>x. name x = raw) chats = None"
    by (simp add: find_None_iff)
  then show ?thesis
    by (simp add: find_chat_def)
qed

lemma replace_class_all_in_class:
  "set s \<subseteq> set cls \<Longrightarrow> replace_class cls [] s = []"
  by (induction s) simp_all

lemma enhanced_fallback_run:
  assumes "args_ok argv" and "Ready \<notin> set pre" and "getChats_reply w = Inr chats"
    and "\<forall>x\<in>set chats. name x \<noteq> argv ! 2"
  shows "filter is_send (fst (run_enhanced argv w (pre @ Ready # post)))
           = (case List.find (\<lambda>c. id_user c = normalize_recipient (argv ! 2)) chats of
                None \<Rightarrow> []
              | Some c \<Rightarrow> [Send_message c (join '' '' (drop 3 argv))])"
    and "snd (run_enhanced argv w (pre @ Ready # post))
           = (case List.find (\<lambda>c. id_user c = normalize_recipient (argv ! 2)) chats of
                None \<Rightarrow> Exited 2
              | Some c \<Rightarrow>
                  (case sendMessage_reply w c (join '' '' (drop 3 argv)) of
                     Inl e \<Rightarrow> Exited 1
                   | Inr res \<Rightarrow> Exited 0))"
proof -
  let ?key = "normalize_recipient (argv ! 2)"
  let ?m = "join '' '' (drop 3 argv)"
  have fb: "find_chat (argv ! 2) ?key chats = List.find (\<lambda>c. id_user c = ?key) chats"
    using assms(4) by (rule find_chat_fallback)
  show "filter is_send (fst (run_enhanced argv w (pre @ Ready # post)))
           = (case List.find (\<lambda>c. id_user c = ?key) chats of
                None \<Rightarrow> [] | Some c \<Rightarrow> [Send_message c ?m])"
  proof (cases "List.find (\<lambda>c. id_user c = ?key) chats")
    case None
    with fb have "find_chat (argv ! 2) ?key chats = None" by simp
    from run_enhanced_at_ready [OF assms(1,2) on_ready_enhanced_not_found [OF assms(3) this]] None
    show ?thesis by (simp add: prelude_observed)
  next
    case (Some c)
    with fb have "find_chat (argv ! 2) ?key chats = Some c" by simp
    from enhanced_sends_to_found [OF assms(1,2,3) this] Some show ?thesis by simp
  qed
  show "snd (run_enhanced argv w (pre @ Ready # post))
           = (case List.find (\<lambda>c. id_user c = ?key) chats of
                None \<Rightarrow> Exited 2
              | Some c \<Rightarrow> (case sendMessage_reply w c ?m of
                     Inl e \<Rightarrow> Exited 1 | Inr res \<Rightarrow> Exited 0))"
  proof (cases "List.find (\<lambda>c. id_user c = ?key) chats")
    case None
    with fb have "find_chat (argv ! 2) ?key chats = None" by simp
    from run_enhanced_at_ready [OF assms(1,2) on_ready_enhanced_not_found [OF assms(3) this]] None
    show ?thesis by simp
  next
    case (Some c)
    with fb have f: "find_chat (argv ! 2) ?key chats = Some c" by simp
    show ?thesis
    proof (cases "sendMessage_reply w c ?m")
      case (Inl e)
      from run_enhanced_at_ready [OF assms(1,2) on_ready_enhanced_send_rejected [OF assms(3) f Inl]]
        Some Inl show ?thesis by simp
    next
      case (Inr res)
      from run_enhanced_at_ready [OF assms(1,2) on_ready_enhanced_sent [OF assms(3) f Inr]]
        Some Inr show ?thesis by simp
    qed
  qed
qed

lemma run_enhanced_status:
  "args_ok argv \<Longrightarrow>
   snd (run_enhanced argv w evs)
     = snd (event_loop (handle_enhanced w (argv ! 2) (normalize_recipient (argv ! 2))
                          (join '' '' (drop 3 argv))) evs)"
  by (simp add: run_enhanced_def script_enhanced_ok split: prod.splits)

lemma run_minimal_status:
  "args_ok argv \<Longrightarrow>
   snd (run_minimal argv w evs)
     = snd (event_loop (handle_minimal w (argv ! 2) (join '' '' (drop 3 argv))) evs)"
  by (simp add: run_minimal_def script_minimal_ok split: prod.splits)

lemma example_args_ok: "args_ok argv_smith" "args_ok argv_unknown"
  by (simp_all add: args_ok_iff argv_smith_def argv_unknown_def)

lemma example_args:
  "argv_smith ! 2 = ''Dr. Smith''" "join '' '' (drop 3 argv_smith) = ''Patient stable''"
  "argv_unknown ! 2 = ''Nobody''" "join '' '' (drop 3 argv_unknown) = ''Reminder''"
  by (simp_all add: argv_smith_def argv_unknown_def)

lemma run_enhanced_first_ready:
  assumes "args_ok argv"
    and "on_ready_enhanced w (argv ! 2) (normalize_recipient (argv ! 2))
           (join '' '' (drop 3 argv)) = (t, Exit n)"
  shows "run_enhanced argv w [Ready] = (fst client_setup @ t, Exited n)"
  using run_enhanced_at_ready [of argv "[]" w t n "[]"] assms
  by (simp add: prelude_enhanced_def)

lemma run_minimal_first_ready:
  assumes "args_ok argv"
    and "on_ready_minimal w (argv ! 2) (join '' '' (drop 3 argv)) = minimal_finally w t"
  shows "run_minimal argv w [Ready] =
           (case destroy_reply w of
              None \<Rightarrow> (fst client_setup @ t @ [Destroy, Process_exit 0], Exited 0)
            | Some e \<Rightarrow> (fst client_setup @ t @ [Destroy], Rejected e))"
  using run_minimal_finally [of argv "[]" w t "[]"] assms
  by (simp add: prelude_minimal_def split: option.splits)

lemma not_found_runs:
  assumes "args_ok argv" and "Ready \<notin> set pre" and "getChats_reply w = Inr chats"
    and "\<forall>x\<in>set chats. name x \<noteq> argv ! 2 \<and> id_user x \<noteq> normalize_recipient (argv ! 2)"
  shows "run_enhanced argv w (pre @ Ready # post)
           = (prelude_enhanced pre @
                [Get_chats, Console_error [not_found_text (argv ! 2)], Destroy, Process_exit 2],
              Exited 2)"
    and "run_minimal argv w (pre @ Ready # post)
           = (case destroy_reply w of
                None \<Rightarrow>
                  (prelude_minimal pre @
                     [Get_chats, Console_error [not_found_text (argv ! 2)]] @
                     [Destroy, Process_exit 0],
                   Exited 0)
              | Some e \<Rightarrow>
                  (prelude_minimal pre @
                     [Get_chats, Console_error [not_found_text (argv ! 2)]] @ [Destroy],
                   Rejected e))"
proof -
  from assms(4) have n: "List.find (\<lambda>x. name x = argv ! 2) chats = None"
    by (simp add: find_None_iff)
  from assms(4) have "List.find (\<lambda>x. id_user x = normalize_recipient (argv ! 2)) chats = None"
    by (simp add: find_None_iff)
  with n have f: "find_chat (argv ! 2) (normalize_recipient (argv ! 2)) chats = None"
    by (simp add: find_chat_def)
  from run_enhanced_at_ready [OF assms(1,2) on_ready_enhanced_not_found [OF assms(3) f]]
  show "run_enhanced argv w (pre @ Ready # post)
           = (prelude_enhanced pre @
                [Get_chats, Console_error [not_found_text (argv ! 2)], Destroy, Process_exit 2],
              Exited 2)" .
  from run_minimal_finally [OF assms(1,2) on_ready_minimal_not_found [OF assms(3) n]]
  show "run_minimal argv w (pre @ Ready # post)
           = (case destroy_reply w of
                None \<Rightarrow>
                  (prelude_minimal pre @
                     [Get_chats, Console_error [not_found_text (argv ! 2)]] @
                     [Destroy, Process_exit 0],
                   Exited 0)
              | Some e \<Rightarrow>
                  (prelude_minimal pre @
                     [Get_chats, Console_error [not_found_text (argv ! 2)]] @ [Destroy],
                   Rejected e))" .
qed

lemma successful_send_runs:
  assumes "args_ok argv" and "Ready \<notin> set pre" and "getChats_reply w = Inr chats"
    and "sendMessage_reply w c (join '' '' (drop 3 argv)) = Inr res"
  shows "find_chat (argv ! 2) (normalize_recipient (argv ! 2)) chats = Some c \<Longrightarrow>
         run_enhanced argv w (pre @ Ready # post)
           = (prelude_enhanced pre @
                [Get_chats, Send_message c (join '' '' (drop 3 argv)),
                 Console_log [''Message queued:'', res], Delay 3000, Destroy, Process_exit 0],
              Exited 0)"
    and "List.find (\<lambda>x. name x = argv ! 2) chats = Some c \<Longrightarrow>
         run_minimal argv w (pre @ Ready # post)
           = (case destroy_reply w of
                None \<Rightarrow>
                  (prelude_minimal pre @
                     [Get_chats, Send_message c (join '' '' (drop 3 argv)),
                      Console_log [''Message sent:'', join '' '' (drop 3 argv)]] @
                     [Destroy, Process_exit 0],
                   Exited 0)
              | Some e \<Rightarrow>
                  (prelude_minimal pre @
                     [Get_chats, Send_message c (join '' '' (drop 3 argv)),
                      Console_log [''Message sent:'', join '' '' (drop 3 argv)]] @ [Destroy],
                   Rejected e))"
proof -
  assume f: "find_chat (argv ! 2) (normalize_recipient (argv ! 2)) chats = Some c"
  from run_enhanced_at_ready [OF assms(1,2) on_ready_enhanced_sent [OF assms(3) f assms(4)]]
  show "run_enhanced argv w (pre @ Ready # post)
           = (prelude_enhanced pre @
                [Get_chats, Send_message c (join '' '' (drop 3 argv)),
                 Console_log [''Message queued:'', res], Delay 3000, Destroy, Process_exit 0],
              Exited 0)" .
next
  assume f: "List.find (\<lambda>x. name x = argv ! 2) chats = Some c"
  from run_minimal_finally [OF assms(1,2) on_ready_minimal_sent [OF assms(3) f assms(4)]]
  show "run_minimal argv w (pre @ Ready # post)
           = (case destroy_reply w of
                None \<Rightarrow>
                  (prelude_minimal pre @
                     [Get_chats, Send_message c (join '' '' (drop 3 argv)),
                      Console_log [''Message sent:'', join '' '' (drop 3 argv)]] @
                     [Destroy, Process_exit 0],
                   Exited 0)
              | Some e \<Rightarrow>
                  (prelude_minimal pre @
                     [Get_chats, Send_message c (join '' '' (drop 3 argv)),
                      Console_log [''Message sent:'', join '' '' (drop 3 argv)]] @ [Destroy],
                   Rejected e))" .
qed

lemma prelude_empty:
  "prelude_enhanced [] = fst client_setup" "prelude_minimal [] = fst client_setup"
  by (simp_all add: prelude_enhanced_def prelude_minimal_def)

lemma smith_found:
  "List.find (\<lambda>x. name x = argv_smith ! 2) [dr_smith] = Some dr_smith"
  "find_chat (argv_smith ! 2) (normalize_recipient (argv_smith ! 2)) [dr_smith] = Some dr_smith"
  by (simp_all add: example_args dr_smith_def find_chat_def)

lemma minimal_no_name_match_no_send:
  assumes "args_ok argv" and "Ready \<notin> set pre" and "getChats_reply w = Inr chats"
    and "\<forall>x\<in>set chats. name x \<noteq> argv ! 2"
  shows "filter is_send (fst (run_minimal argv w (pre @ Ready # post))) = []"
proof -
  from assms(4) have n: "List.find (\<lambda>x. name x = argv ! 2) chats = None"
    by (simp add: find_None_iff)
  from run_minimal_finally [OF assms(1,2) on_ready_minimal_not_found [OF assms(3) n]]
  show ?thesis
    by (cases "destroy_reply w") (simp_all add: prelude_observed)
qed

lemma minimal_send_rejected_trace:
  assumes "args_ok argv" and "Ready \<notin> set pre" and "getChats_reply w = Inr chats"
    and "List.find (\<lambda>x. name x = argv ! 2) chats = Some c"
    and "sendMessage_reply w c (join '' '' (drop 3 argv)) = Inl e"
  shows "run_minimal argv w (pre @ Ready # post)
           = (case destroy_reply w of
                None \<Rightarrow>
                  (prelude_minimal pre @
                     [Get_chats, Send_message c (join '' '' (drop 3 argv)),
                      Console_error [''Failed to send message:'', e]] @
                     [Destroy, Process_exit 0],
                   Exited 0)
              | Some d \<Rightarrow>
                  (prelude_minimal pre @
                     [Get_chats, Send_message c (join '' '' (drop 3 argv)),
                      Console_error [''Failed to send message:'', e]] @ [Destroy],
                   Rejected d))"
  using run_minimal_finally [OF assms(1,2) on_ready_minimal_send_rejected [OF assms(3,4,5)]] .

section \<open>The claims\<close>

subsection \<open>Recipient normalisation\<close>

lemma replace_class_empty_filter:
  "replace_class cls [] s = filter (\<lambda>c. c \<notin> set cls) s"
  by (induction s) simp_all

text \<open>
  Claim C7. For every recipient string, the normalized fallback identifier is the
  recipient with every plus sign and every space removed and nothing else changed: the
  replacement that the script performs equals the filter of the specification, and
  neither character occurs in the result.
\<close>

theorem normalize_recipient_strips:
  "normalize_recipient r = strip_plus_space_spec r
   \<and> CHR ''+'' \<notin> set (normalize_recipient r)
   \<and> CHR '' '' \<notin> set (normalize_recipient r)"
proof -
  have eq: "normalize_recipient r = strip_plus_space_spec r"
    by (simp add: normalize_recipient_def strip_plus_space_spec_def replace_class_empty_filter)
  have "CHR ''+'' \<notin> set (strip_plus_space_spec r)" and "CHR '' '' \<notin> set (strip_plus_space_spec r)"
    by (simp_all add: strip_plus_space_spec_def)
  with eq show ?thesis by simp
qed

theorem normalize_recipient_strips_witness:
  "normalize_recipient ''+91 91234 56789'' = ''919123456789''"
  using normalize_recipient_strips [of "''+91 91234 56789''"]
  by (simp add: strip_plus_space_spec_def)

subsection \<open>Usage errors\<close>

text \<open>
  Claim C3. When the recipient argument is missing or empty, or the message tokens are
  missing or join to the empty string, each variant writes its usage line to standard
  error and exits with code 1, whatever events would follow; the run contains no effect
  on a session object, so none was created.
\<close>

theorem usage_error_exits_before_session:
  assumes "length argv \<le> 2 \<or> argv ! 2 = [] \<or> join '' '' (drop 3 argv) = []"
  shows "run_enhanced argv w evs = ([Console_error [usage_enhanced], Process_exit 1], Exited 1)
       \<and> run_minimal argv w evs = ([Console_error [usage_minimal], Process_exit 1], Exited 1)
       \<and> filter is_session (fst (run_enhanced argv w evs)) = []
       \<and> filter is_session (fst (run_minimal argv w evs)) = []"
proof -
  from assms have "\<not> args_ok argv"
    by (auto simp add: args_ok_iff)
  then show ?thesis
    by (simp add: run_enhanced_usage run_minimal_usage)
qed

theorem usage_error_exits_before_session_witness:
  "join '' '' (drop 3 [''node'', ''send_whatsapp.js'', ''Dr. Smith'', '''']) = []
   \<and> run_enhanced [''node'', ''send_whatsapp.js'', ''Dr. Smith'', ''''] world_ok [Ready]
       = ([Console_error [usage_enhanced], Process_exit 1], Exited 1)
   \<and> run_minimal [''node'', ''send_whatsapp.js'', ''Dr. Smith'', ''''] world_ok [Ready]
       = ([Console_error [usage_minimal], Process_exit 1], Exited 1)"
  using usage_error_exits_before_session
    [of "[''node'', ''send_whatsapp.js'', ''Dr. Smith'', '''']" world_ok "[Ready]"]
  by simp

subsection \<open>Which chat is selected\<close>

text \<open>
  Claim C6 (enhanced variant). When the chat list holds a chat whose display name equals
  the raw recipient argument, the selected chat is found by the name search, whatever the
  fallback key is and whichever chats carry it as numeric user portion: it is the first
  chat of the list with that display name, hence the given chat itself when no other chat
  bears the name, and the one send call of the run goes to it.
\<close>

theorem exact_name_match_selected:
  assumes "args_ok argv" and "Ready \<notin> set pre" and "getChats_reply w = Inr chats"
    and "c \<in> set chats" and "name c = argv ! 2"
  shows "\<exists>c'. List.find (\<lambda>x. name x = argv ! 2) chats = Some c'
           \<and> (\<forall>rcp. find_chat (argv ! 2) rcp chats = Some c')
           \<and> c' \<in> set chats \<and> name c' = argv ! 2
           \<and> ((\<forall>x\<in>set chats. name x = argv ! 2 \<longrightarrow> x = c) \<longrightarrow> c' = c)
           \<and> filter is_send (fst (run_enhanced argv w (pre @ Ready # post)))
                = [Send_message c' (join '' '' (drop 3 argv))]"
proof -
  from assms(4,5) obtain c' where f: "List.find (\<lambda>x. name x = argv ! 2) chats = Some c'"
    by (cases "List.find (\<lambda>x. name x = argv ! 2) chats") (auto simp add: find_None_iff)
  then have props: "c' \<in> set chats" "name c' = argv ! 2"
    by (auto simp add: find_Some_iff)
  have sel: "find_chat (argv ! 2) rcp chats = Some c'" for rcp
    using f by (rule find_chat_by_name)
  from enhanced_sends_to_found [OF assms(1,2,3) sel]
  have "filter is_send (fst (run_enhanced argv w (pre @ Ready # post)))
          = [Send_message c' (join '' '' (drop 3 argv))]" .
  with f props sel show ?thesis by blast
qed

theorem exact_name_match_selected_witness:
  "args_ok argv_number \<and> Ready \<notin> set [Qr ''token'']
   \<and> getChats_reply world_numbers = Inr [alice, numbered]
   \<and> numbered \<in> set [alice, numbered] \<and> name numbered = argv_number ! 2
   \<and> id_user alice = normalize_recipient (argv_number ! 2)
   \<and> find_chat (argv_number ! 2) (normalize_recipient (argv_number ! 2)) [alice, numbered] = Some numbered
   \<and> filter is_send (fst (run_enhanced argv_number world_numbers ([Qr ''token''] @ Ready # [])))
        = [Send_message numbered ''Reminder'']"
proof -
  have h: "args_ok argv_number" "Ready \<notin> set [Qr ''token'']"
    "getChats_reply world_numbers = Inr [alice, numbered]"
    "numbered \<in> set [alice, numbered]" "name numbered = argv_number ! 2"
    by (simp_all add: args_ok_iff argv_number_def world_numbers_def numbered_def)
  have u: "\<forall>x\<in>set [alice, numbered]. name x = argv_number ! 2 \<longrightarrow> x = numbered"
    by (simp add: alice_def numbered_def argv_number_def)
  have n: "id_user alice = normalize_recipient (argv_number ! 2)"
    by (simp add: alice_def argv_number_def normalize_recipient_def)
  from exact_name_match_selected [OF h, of "[]"] u h n show ?thesis
    by (auto simp add: argv_number_def)
qed

text \<open>
  Claim C10 says that among several chats that match the same criterion the earliest in
  the list is selected, for the display name and for the numeric user portion alike. For
  the numeric user portion this fails. With the recipient \<^verbatim>\<open>4477\<close> and the chats
  Alice and Bob, both with user portion \<^verbatim>\<open>4477\<close>, followed by a chat named
  \<^verbatim>\<open>4477\<close>, the enhanced variant sends to the chat found by name, not to Alice. With
  Alice and Bob alone the minimal variant, which searches by name only, sends to nobody.
\<close>

theorem earliest_numeric_match_claim_counterexample:
  "getChats_reply world_three = Inr [alice, bob, numbered]
   \<and> id_user alice = normalize_recipient (argv_number ! 2)
   \<and> id_user bob = normalize_recipient (argv_number ! 2)
   \<and> filter is_send (fst (run_enhanced argv_number world_three [Ready]))
        = [Send_message numbered ''Reminder'']
   \<and> numbered \<noteq> alice
   \<and> getChats_reply world_same_number = Inr [alice, bob]
   \<and> filter is_send (fst (run_minimal argv_number world_same_number [Ready])) = []"
proof -
  have ok: "args_ok argv_number"
    by (simp add: args_ok_iff argv_number_def)
  have v: "argv_number ! 2 = ''4477''" "join '' '' (drop 3 argv_number) = ''Reminder''"
    by (simp_all add: argv_number_def)
  have e: "Ready \<notin> set []" by simp
  have g3: "getChats_reply world_three = Inr [alice, bob, numbered]"
    by (simp add: world_three_def)
  have g2: "getChats_reply world_same_number = Inr [alice, bob]"
    by (simp add: world_same_number_def)
  have ids: "id_user alice = normalize_recipient (argv_number ! 2)"
      "id_user bob = normalize_recipient (argv_number ! 2)"
    by (simp_all add: alice_def bob_def v normalize_recipient_def)
  have ne: "numbered \<noteq> alice"
    by (simp add: numbered_def alice_def)
  have "List.find (\<lambda>x. name x = argv_number ! 2) [alice, bob, numbered] = Some numbered"
    by (simp add: alice_def bob_def numbered_def v)
  then have f: "find_chat (argv_number ! 2) (normalize_recipient (argv_number ! 2))
      [alice, bob, numbered] = Some numbered"
    by (rule find_chat_by_name)
  from enhanced_sends_to_found [OF ok e g3 f, of "[]"]
  have se: "filter is_send (fst (run_enhanced argv_number world_three [Ready]))
      = [Send_message numbered ''Reminder'']"
    by (simp add: v)
  have n: "\<forall>x\<in>set [alice, bob]. name x \<noteq> argv_number ! 2"
    by (simp add: alice_def bob_def v)
  from minimal_no_name_match_no_send [OF ok e g2 n, of "[]"]
  have sm: "filter is_send (fst (run_minimal argv_number world_same_number [Ready])) = []"
    by simp
  from g3 ids se ne g2 sm show ?thesis
    by (intro conjI) assumption+
qed

text \<open>
  Claim C10 as amended. The selection follows the order of the list that the session
  returned. When chats bear the recipient as display name, the one at the least index is
  the chat that the send call of the run goes to, in both variants, whatever chats match
  by numeric user portion. When no chat bears the recipient as display name, the enhanced
  variant sends to the chat at the least index among those whose numeric user portion is
  the normalized recipient, and the minimal variant issues no send call.
\<close>

theorem earliest_match_selected:
  assumes "args_ok argv" and "Ready \<notin> set pre" and "getChats_reply w = Inr chats"
    and "i < length chats"
  shows "(name (chats ! i) = argv ! 2 \<and> (\<forall>j<i. name (chats ! j) \<noteq> argv ! 2) \<longrightarrow>
            filter is_send (fst (run_enhanced argv w (pre @ Ready # post)))
              = [Send_message (chats ! i) (join '' '' (drop 3 argv))]
          \<and> filter is_send (fst (run_minimal argv w (pre @ Ready # post)))
              = [Send_message (chats ! i) (join '' '' (drop 3 argv))])
       \<and> ((\<forall>x\<in>set chats. name x \<noteq> argv ! 2)
          \<and> id_user (chats ! i) = normalize_recipient (argv ! 2)
          \<and> (\<forall>j<i. id_user (chats ! j) \<noteq> normalize_recipient (argv ! 2)) \<longrightarrow>
            filter is_send (fst (run_enhanced argv w (pre @ Ready # post)))
              = [Send_message (chats ! i) (join '' '' (drop 3 argv))])
       \<and> ((\<forall>x\<in>set chats. name x \<noteq> argv ! 2) \<longrightarrow>
            filter is_send (fst (run_minimal argv w (pre @ Ready # post))) = [])"
proof (intro conjI impI)
  assume a: "name (chats ! i) = argv ! 2 \<and> (\<forall>j<i. name (chats ! j) \<noteq> argv ! 2)"
  with assms(4) have f: "List.find (\<lambda>x. name x = argv ! 2) chats = Some (chats ! i)"
    by (intro find_earliest) simp_all
  from minimal_sends_to_found [OF assms(1,2,3) f]
  show "filter is_send (fst (run_minimal argv w (pre @ Ready # post)))
          = [Send_message (chats ! i) (join '' '' (drop 3 argv))]" .
  from enhanced_sends_to_found [OF assms(1,2,3) find_chat_by_name [OF f]]
  show "filter is_send (fst (run_enhanced argv w (pre @ Ready # post)))
          = [Send_message (chats ! i) (join '' '' (drop 3 argv))]" .
next
  assume a: "(\<forall>x\<in>set chats. name x \<noteq> argv ! 2)
          \<and> id_user (chats ! i) = normalize_recipient (argv ! 2)
          \<and> (\<forall>j<i. id_user (chats ! j) \<noteq> normalize_recipient (argv ! 2))"
  with assms(4)
  have "List.find (\<lambda>x. id_user x = normalize_recipient (argv ! 2)) chats = Some (chats ! i)"
    by (intro find_earliest) simp_all
  with a have "find_chat (argv ! 2) (normalize_recipient (argv ! 2)) chats = Some (chats ! i)"
    by (simp add: find_chat_fallback)
  from enhanced_sends_to_found [OF assms(1,2,3) this]
  show "filter is_send (fst (run_enhanced argv w (pre @ Ready # post)))
          = [Send_message (chats ! i) (join '' '' (drop 3 argv))]" .
next
  assume "\<forall>x\<in>set chats. name x \<noteq> argv ! 2"
  from minimal_no_name_match_no_send [OF assms(1,2,3) this]
  show "filter is_send (fst (run_minimal argv w (pre @ Ready # post))) = []" .
qed

theorem earliest_match_selected_witness:
  "args_ok argv_smith \<and> args_ok argv_plus \<and> Ready \<notin> set [Auth_failure ''stale'']
   \<and> name smith_other = argv_smith ! 2 \<and> name dr_smith = argv_smith ! 2
   \<and> filter is_send (fst (run_enhanced argv_smith world_twins ([Auth_failure ''stale''] @ Ready # [])))
        = [Send_message smith_other ''Patient stable'']
   \<and> filter is_send (fst (run_minimal argv_smith world_twins ([Auth_failure ''stale''] @ Ready # [])))
        = [Send_message smith_other ''Patient stable'']
   \<and> id_user alice = normalize_recipient (argv_plus ! 2)
   \<and> id_user bob = normalize_recipient (argv_plus ! 2)
   \<and> filter is_send (fst (run_enhanced argv_plus world_same_number ([Auth_failure ''stale''] @ Ready # [])))
        = [Send_message alice ''Reminder'']
   \<and> filter is_send (fst (run_minimal argv_plus world_same_number ([Auth_failure ''stale''] @ Ready # [])))
        = []"
proof -
  have h: "args_ok argv_smith" "Ready \<notin> set [Auth_failure ''stale'']"
      "getChats_reply world_twins = Inr [alice, smith_other, dr_smith]"
      "1 < length [alice, smith_other, dr_smith]"
    by (simp_all add: args_ok_iff argv_smith_def world_twins_def)
  have n: "name ([alice, smith_other, dr_smith] ! 1) = argv_smith ! 2
      \<and> (\<forall>j<1. name ([alice, smith_other, dr_smith] ! j) \<noteq> argv_smith ! 2)"
      "name dr_smith = argv_smith ! 2"
    by (simp_all add: alice_def smith_other_def dr_smith_def argv_smith_def)
  have k: "args_ok argv_plus" "Ready \<notin> set [Auth_failure ''stale'']"
      "getChats_reply world_same_number = Inr [alice, bob]"
      "0 < length [alice, bob]"
    by (simp_all add: args_ok_iff argv_plus_def world_same_number_def)
  have m: "(\<forall>x\<in>set [alice, bob]. name x \<noteq> argv_plus ! 2)
      \<and> id_user ([alice, bob] ! 0) = normalize_recipient (argv_plus ! 2)
      \<and> (\<forall>j<0. id_user ([alice, bob] ! j) \<noteq> normalize_recipient (argv_plus ! 2))"
      "id_user bob = normalize_recipient (argv_plus ! 2)"
    by (simp_all add: alice_def bob_def argv_plus_def normalize_recipient_def)
  from earliest_match_selected [OF h, of "[]"] earliest_match_selected [OF k, of "[]"] n m h k
  show ?thesis
    by (simp add: argv_smith_def argv_plus_def)
qed

subsection \<open>A recipient of plus signs and spaces only\<close>

text \<open>
  Claim C9 (enhanced variant). The usage check reads the raw recipient, before the
  normalisation. A recipient that is not empty and consists of plus signs and spaces
  only, with a message that is not empty, passes the check: the script goes on to create
  the client, and the normalized recipient is the empty string. When no chat bears the
  raw recipient as name, the fallback search compares the empty string with the numeric
  user portion of each chat: the run sends to the first chat whose user portion is empty
  and exits with code 2 when there is none; it is no usage error.
\<close>

theorem plus_space_recipient_passes_usage_check:
  assumes "2 < length argv" and "argv ! 2 \<noteq> []"
    and "set (argv ! 2) \<subseteq> {CHR ''+'', CHR '' ''}"
    and "join '' '' (drop 3 argv) \<noteq> []"
  shows "normalize_recipient (argv ! 2) = []
       \<and> script_enhanced argv = (fst client_setup, Normal (argv ! 2, [], join '' '' (drop 3 argv)))
       \<and> ((\<forall>x\<in>set chats. name x \<noteq> argv ! 2) \<longrightarrow>
            find_chat (argv ! 2) (normalize_recipient (argv ! 2)) chats
              = List.find (\<lambda>c. id_user c = []) chats)
       \<and> (Ready \<notin> set pre \<and> getChats_reply w = Inr chats \<and> (\<forall>x\<in>set chats. name x \<noteq> argv ! 2) \<longrightarrow>
            filter is_send (fst (run_enhanced argv w (pre @ Ready # post)))
              = (case List.find (\<lambda>c. id_user c = []) chats of
                   None \<Rightarrow> []
                 | Some c \<Rightarrow> [Send_message c (join '' '' (drop 3 argv))])
          \<and> snd (run_enhanced argv w (pre @ Ready # post))
              = (case List.find (\<lambda>c. id_user c = []) chats of
                   None \<Rightarrow> Exited 2
                 | Some c \<Rightarrow>
                     (case sendMessage_reply w c (join '' '' (drop 3 argv)) of
                        Inl e \<Rightarrow> Exited 1
                      | Inr res \<Rightarrow> Exited 0)))"
proof -
  have ok: "args_ok argv"
    using assms(1,2,4) by (simp add: args_ok_iff)
  have key: "normalize_recipient (argv ! 2) = []"
    using assms(3) by (simp add: normalize_recipient_def replace_class_all_in_class)
  have scr: "script_enhanced argv
      = (fst client_setup, Normal (argv ! 2, [], join '' '' (drop 3 argv)))"
    using script_enhanced_ok [OF ok] key by simp
  have fb: "(\<forall>x\<in>set chats. name x \<noteq> argv ! 2) \<longrightarrow>
      find_chat (argv ! 2) (normalize_recipient (argv ! 2)) chats
        = List.find (\<lambda>c. id_user c = []) chats"
    using find_chat_fallback [of chats "argv ! 2" "normalize_recipient (argv ! 2)"] key by simp
  have run: "Ready \<notin> set pre \<and> getChats_reply w = Inr chats \<and> (\<forall>x\<in>set chats. name x \<noteq> argv ! 2) \<longrightarrow>
            filter is_send (fst (run_enhanced argv w (pre @ Ready # post)))
              = (case List.find (\<lambda>c. id_user c = []) chats of
                   None \<Rightarrow> []
                 | Some c \<Rightarrow> [Send_message c (join '' '' (drop 3 argv))])
          \<and> snd (run_enhanced argv w (pre @ Ready # post))
              = (case List.find (\<lambda>c. id_user c = []) chats of
                   None \<Rightarrow> Exited 2
                 | Some c \<Rightarrow>
                     (case sendMessage_reply w c (join '' '' (drop 3 argv)) of
                        Inl e \<Rightarrow> Exited 1
                      | Inr res \<Rightarrow> Exited 0))"
    using enhanced_fallback_run [OF ok, of pre w chats post] key by simp
  from key scr fb run show ?thesis by blast
qed

theorem plus_space_recipient_passes_usage_check_witness:
  "2 < length argv_signs \<and> argv_signs ! 2 = ''+ +''
   \<and> set (argv_signs ! 2) \<subseteq> {CHR ''+'', CHR '' ''}
   \<and> join '' '' (drop 3 argv_signs) = ''Reminder''
   \<and> normalize_recipient (argv_signs ! 2) = []
   \<and> find_chat (argv_signs ! 2) (normalize_recipient (argv_signs ! 2)) [alice, blank] = Some blank
   \<and> filter is_send (fst (run_enhanced argv_signs world_blank ([] @ Ready # [])))
        = [Send_message blank ''Reminder'']
   \<and> snd (run_enhanced argv_signs world_blank ([] @ Ready # [])) = Exited 0
   \<and> snd (run_enhanced argv_signs world_numbers ([] @ Ready # [])) = Exited 2"
proof -
  have h: "2 < length argv_signs" "argv_signs ! 2 \<noteq> []"
      "set (argv_signs ! 2) \<subseteq> {CHR ''+'', CHR '' ''}" "join '' '' (drop 3 argv_signs) \<noteq> []"
    by (simp_all add: argv_signs_def)
  have a: "Ready \<notin> set [] \<and> getChats_reply world_blank = Inr [alice, blank]
      \<and> (\<forall>x\<in>set [alice, blank]. name x \<noteq> argv_signs ! 2)"
    by (simp add: world_blank_def alice_def blank_def argv_signs_def)
  have b: "Ready \<notin> set [] \<and> getChats_reply world_numbers = Inr [alice, numbered]
      \<and> (\<forall>x\<in>set [alice, numbered]. name x \<noteq> argv_signs ! 2)"
    by (simp add: world_numbers_def alice_def numbered_def argv_signs_def)
  have f: "List.find (\<lambda>c. id_user c = []) [alice, blank] = Some blank"
      "List.find (\<lambda>c. id_user c = []) [alice, numbered] = None"
    by (simp_all add: alice_def blank_def numbered_def)
  have r: "sendMessage_reply world_blank blank ''Reminder'' = Inr ''3EB0A1''"
    by (simp add: world_blank_def reply_ok_def)
  have v: "argv_signs ! 2 = ''+ +''" "join '' '' (drop 3 argv_signs) = ''Reminder''"
    by (simp_all add: argv_signs_def)
  note t1 = plus_space_recipient_passes_usage_check
      [OF h, of "[alice, blank]" "[]" world_blank "[]"]
  note t2 = plus_space_recipient_passes_usage_check
      [OF h, of "[alice, numbered]" "[]" world_numbers "[]"]
  from t1 have k: "normalize_recipient (argv_signs ! 2) = []" by blast
  from t1 a
  have c1: "find_chat (argv_signs ! 2) (normalize_recipient (argv_signs ! 2)) [alice, blank]
      = Some blank"
    unfolding f by blast
  from t1 a
  have c2: "filter is_send (fst (run_enhanced argv_signs world_blank ([] @ Ready # [])))
      = [Send_message blank (join '' '' (drop 3 argv_signs))]"
    unfolding f by simp
  from t1 a
  have c3: "snd (run_enhanced argv_signs world_blank ([] @ Ready # [])) = Exited 0"
    unfolding f by (simp add: v r)
  from t2 b
  have c4: "snd (run_enhanced argv_signs world_numbers ([] @ Ready # [])) = Exited 2"
    unfolding f by simp
  from h(1,3) v k c1 c2 c3 c4 show ?thesis
    by (intro conjI) simp_all
qed

subsection \<open>The authentication-failure event\<close>

text \<open>
  Claim C8. The handler of the authentication-failure event only writes the reason to
  standard error and returns. The event never ends the process: taking one such event out
  of a sequence of events leaves the final state of the run as it was, in both variants.
  The process ends only through the usage check or the ready handler: with valid
  arguments and no ready event among the events, both variants are still running.
\<close>

theorem auth_failure_only_logs:
  "on_auth_failure m = ([Console_error [''Auth failure'', m]], Normal ())
   \<and> handle_enhanced w raw rcp msg (Auth_failure m) = on_auth_failure m
   \<and> handle_minimal w raw msg (Auth_failure m) = on_auth_failure m
   \<and> snd (run_enhanced argv w (evs1 @ Auth_failure m # evs2))
       = snd (run_enhanced argv w (evs1 @ evs2))
   \<and> snd (run_minimal argv w (evs1 @ Auth_failure m # evs2))
       = snd (run_minimal argv w (evs1 @ evs2))
   \<and> (args_ok argv \<and> Ready \<notin> set evs \<longrightarrow>
        snd (run_enhanced argv w evs) = Running \<and> snd (run_minimal argv w evs) = Running)"
proof -
  have log: "on_auth_failure m = ([Console_error [''Auth failure'', m]], Normal ())"
    by (simp add: on_auth_failure_def io_defs)
  have he: "handle_enhanced w a b c (Auth_failure m) = on_auth_failure m" for a b c
    by (simp add: handle_enhanced_def)
  have hm: "handle_minimal w a c (Auth_failure m) = on_auth_failure m" for a c
    by (simp add: handle_minimal_def)
  have se: "snd (run_enhanced argv w (evs1 @ Auth_failure m # evs2))
      = snd (run_enhanced argv w (evs1 @ evs2))"
  proof (cases "args_ok argv")
    case True
    have "snd (event_loop (handle_enhanced w a b c) (evs1 @ Auth_failure m # evs2))
        = snd (event_loop (handle_enhanced w a b c) (evs1 @ evs2))" for a b c
      using he [of a b c] log by (intro event_loop_status_skip) simp
    with True show ?thesis
      by (simp add: run_enhanced_status)
  next
    case False
    then show ?thesis by (simp add: run_enhanced_usage)
  qed
  have sm: "snd (run_minimal argv w (evs1 @ Auth_failure m # evs2))
      = snd (run_minimal argv w (evs1 @ evs2))"
  proof (cases "args_ok argv")
    case True
    have "snd (event_loop (handle_minimal w a c) (evs1 @ Auth_failure m # evs2))
        = snd (event_loop (handle_minimal w a c) (evs1 @ evs2))" for a c
      using hm [of a c] log by (intro event_loop_status_skip) simp
    with True show ?thesis
      by (simp add: run_minimal_status)
  next
    case False
    then show ?thesis by (simp add: run_minimal_usage)
  qed
  have idle: "args_ok argv \<and> Ready \<notin> set evs \<longrightarrow>
      snd (run_enhanced argv w evs) = Running \<and> snd (run_minimal argv w evs) = Running"
    by (simp add: run_enhanced_idle run_minimal_idle)
  from log he hm se sm idle show ?thesis by blast
qed

theorem auth_failure_only_logs_witness:
  "args_ok argv_smith
   \<and> Ready \<notin> set [Qr ''token'', Auth_failure ''session expired'', Auth_failure ''session expired'']
   \<and> snd (run_enhanced argv_smith world_ok
            [Qr ''token'', Auth_failure ''session expired'', Auth_failure ''session expired'']) = Running
   \<and> snd (run_minimal argv_smith world_ok
            [Qr ''token'', Auth_failure ''session expired'', Auth_failure ''session expired'']) = Running"
proof -
  have h: "args_ok argv_smith
      \<and> Ready \<notin> set [Qr ''token'', Auth_failure ''session expired'', Auth_failure ''session expired'']"
    by (simp add: args_ok_iff argv_smith_def)
  from auth_failure_only_logs [of "''session expired''" world_ok _ _ _ argv_smith "[]" "[]"
      "[Qr ''token'', Auth_failure ''session expired'', Auth_failure ''session expired'']"] h
  show ?thesis by blast
qed

subsection \<open>A send call that raises\<close>

text \<open>
  Claim C1 says that a run whose send call raises ends with exit code 3 in the enhanced
  variant and with a non-zero code in the minimal variant. Both fail on the invocation
  \<^verbatim>\<open>node send_whatsapp.js "Dr. Smith" Patient stable\<close> with one chat of that name
  and a rejected \<^verbatim>\<open>sendMessage\<close>: the \<^verbatim>\<open>catch\<close> of \<^verbatim>\<open>send\<close> calls
  \<^verbatim>\<open>gracefulExit(1)\<close>, and the \<^verbatim>\<open>finally\<close> block of the minimal variant calls
  \<^verbatim>\<open>process.exit(0)\<close>.
\<close>

theorem send_failure_claimed_exit_codes_counterexample:
  "sendMessage_reply world_send_fails dr_smith ''Patient stable'' = Inl ''Error: send failed''
   \<and> run_enhanced argv_smith world_send_fails [Ready]
       = (fst client_setup @
            [Get_chats, Send_message dr_smith ''Patient stable'',
             Console_error [''Failed to send message:'', ''Error: send failed''],
             Destroy, Process_exit 1],
          Exited 1)
   \<and> snd (run_enhanced argv_smith world_send_fails [Ready]) \<noteq> Exited 3
   \<and> run_minimal argv_smith world_send_fails [Ready]
       = (fst client_setup @
            [Get_chats, Send_message dr_smith ''Patient stable'',
             Console_error [''Failed to send message:'', ''Error: send failed''],
             Destroy, Process_exit 0],
          Exited 0)"
proof -
  have g: "getChats_reply world_send_fails = Inr [dr_smith]"
    and s: "sendMessage_reply world_send_fails dr_smith ''Patient stable''
              = Inl ''Error: send failed''"
    and d: "destroy_reply world_send_fails = None"
    by (simp_all add: world_send_fails_def reply_fail_def)
  have fm: "List.find (\<lambda>c. name c = ''Dr. Smith'') [dr_smith] = Some dr_smith"
    by (simp add: dr_smith_def)
  then have fe: "find_chat ''Dr. Smith'' (normalize_recipient ''Dr. Smith'') [dr_smith]
      = Some dr_smith"
    by (rule find_chat_by_name)
  have e: "run_enhanced argv_smith world_send_fails [Ready]
       = (fst client_setup @
            [Get_chats, Send_message dr_smith ''Patient stable'',
             Console_error [''Failed to send message:'', ''Error: send failed''],
             Destroy, Process_exit 1],
          Exited 1)"
    by (rule run_enhanced_first_ready [OF example_args_ok(1)])
       (simp add: example_args on_ready_enhanced_send_rejected [OF g fe s])
  have m: "run_minimal argv_smith world_send_fails [Ready]
       = (fst client_setup @
            [Get_chats, Send_message dr_smith ''Patient stable'',
             Console_error [''Failed to send message:'', ''Error: send failed''],
             Destroy, Process_exit 0],
          Exited 0)"
    using run_minimal_first_ready [OF example_args_ok(1),
        of world_send_fails "[Get_chats, Send_message dr_smith ''Patient stable'',
             Console_error [''Failed to send message:'', ''Error: send failed'']]"]
      on_ready_minimal_send_rejected [OF g fm s] d
    by (simp add: example_args)
  from s e m show ?thesis by simp
qed

text \<open>
  Claim C1 as amended. When the send call raises, the error is written to standard error
  with the text \<^verbatim>\<open>Failed to send message:\<close> and the release is then attempted,
  exactly once, in both variants. The enhanced variant then exits with code 1. The
  minimal variant exits with code 0 when the release returns.
\<close>

theorem send_failure_exit_codes:
  assumes "args_ok argv" and "Ready \<notin> set pre" and "getChats_reply w = Inr chats"
    and "sendMessage_reply w c (join '' '' (drop 3 argv)) = Inl e"
  shows "(find_chat (argv ! 2) (normalize_recipient (argv ! 2)) chats = Some c \<longrightarrow>
            run_enhanced argv w (pre @ Ready # post)
              = (prelude_enhanced pre @
                   [Get_chats, Send_message c (join '' '' (drop 3 argv)),
                    Console_error [''Failed to send message:'', e], Destroy, Process_exit 1],
                 Exited 1)
          \<and> destroys (fst (run_enhanced argv w (pre @ Ready # post))) = 1)
       \<and> (List.find (\<lambda>x. name x = argv ! 2) chats = Some c \<longrightarrow>
            (\<exists>t. fst (run_minimal argv w (pre @ Ready # post))
                   = prelude_minimal pre @
                       [Get_chats, Send_message c (join '' '' (drop 3 argv)),
                        Console_error [''Failed to send message:'', e], Destroy] @ t)
          \<and> destroys (fst (run_minimal argv w (pre @ Ready # post))) = 1
          \<and> (destroy_reply w = None \<longrightarrow>
                run_minimal argv w (pre @ Ready # post)
                  = (prelude_minimal pre @
                       [Get_chats, Send_message c (join '' '' (drop 3 argv)),
                        Console_error [''Failed to send message:'', e], Destroy, Process_exit 0],
                     Exited 0)))"
proof (intro conjI impI)
  assume f: "find_chat (argv ! 2) (normalize_recipient (argv ! 2)) chats = Some c"
  from run_enhanced_at_ready
    [OF assms(1,2) on_ready_enhanced_send_rejected [OF assms(3) f assms(4)]]
  show r: "run_enhanced argv w (pre @ Ready # post)
      = (prelude_enhanced pre @
           [Get_chats, Send_message c (join '' '' (drop 3 argv)),
            Console_error [''Failed to send message:'', e], Destroy, Process_exit 1],
         Exited 1)" .
  from enhanced_release_once [OF assms(1,2)]
  show "destroys (fst (run_enhanced argv w (pre @ Ready # post))) = 1"
    by blast
next
  assume f: "List.find (\<lambda>x. name x = argv ! 2) chats = Some c"
  note r = minimal_send_rejected_trace [OF assms(1,2,3) f assms(4), of post]
  show "\<exists>t. fst (run_minimal argv w (pre @ Ready # post))
          = prelude_minimal pre @
              [Get_chats, Send_message c (join '' '' (drop 3 argv)),
               Console_error [''Failed to send message:'', e], Destroy] @ t"
  proof (cases "destroy_reply w")
    case None
    with r have "fst (run_minimal argv w (pre @ Ready # post))
          = prelude_minimal pre @
              [Get_chats, Send_message c (join '' '' (drop 3 argv)),
               Console_error [''Failed to send message:'', e], Destroy] @ [Process_exit 0]"
      by simp
    then show ?thesis by (rule exI)
  next
    case (Some d)
    with r have "fst (run_minimal argv w (pre @ Ready # post))
          = prelude_minimal pre @
              [Get_chats, Send_message c (join '' '' (drop 3 argv)),
               Console_error [''Failed to send message:'', e], Destroy] @ []"
      by simp
    then show ?thesis by (rule exI)
  qed
  from minimal_release_once [OF assms(1,2)]
  show "destroys (fst (run_minimal argv w (pre @ Ready # post))) = 1"
    by blast
next
  assume f: "List.find (\<lambda>x. name x = argv ! 2) chats = Some c"
    and d: "destroy_reply w = None"
  from minimal_send_rejected_trace [OF assms(1,2,3) f assms(4), of post] d
  show "run_minimal argv w (pre @ Ready # post)
      = (prelude_minimal pre @
           [Get_chats, Send_message c (join '' '' (drop 3 argv)),
            Console_error [''Failed to send message:'', e], Destroy, Process_exit 0],
         Exited 0)"
    by simp
qed

theorem send_failure_exit_codes_witness:
  "args_ok argv_smith \<and> Ready \<notin> set [Qr ''token'']
   \<and> getChats_reply world_send_fails = Inr [dr_smith]
   \<and> sendMessage_reply world_send_fails dr_smith (join '' '' (drop 3 argv_smith))
        = Inl ''Error: send failed''
   \<and> find_chat (argv_smith ! 2) (normalize_recipient (argv_smith ! 2)) [dr_smith] = Some dr_smith
   \<and> List.find (\<lambda>x. name x = argv_smith ! 2) [dr_smith] = Some dr_smith
   \<and> destroy_reply world_send_fails = None
   \<and> snd (run_enhanced argv_smith world_send_fails ([Qr ''token''] @ Ready # [])) = Exited 1
   \<and> destroys (fst (run_enhanced argv_smith world_send_fails ([Qr ''token''] @ Ready # []))) = 1
   \<and> snd (run_minimal argv_smith world_send_fails ([Qr ''token''] @ Ready # [])) = Exited 0
   \<and> destroys (fst (run_minimal argv_smith world_send_fails ([Qr ''token''] @ Ready # []))) = 1
   \<and> getChats_reply world_both_fail = Inr [dr_smith]
   \<and> sendMessage_reply world_both_fail dr_smith (join '' '' (drop 3 argv_smith))
        = Inl ''Error: send failed''
   \<and> destroys (fst (run_minimal argv_smith world_both_fail ([Qr ''token''] @ Ready # []))) = 1"
proof -
  have h: "args_ok argv_smith" "Ready \<notin> set [Qr ''token'']"
      "getChats_reply world_send_fails = Inr [dr_smith]"
      "sendMessage_reply world_send_fails dr_smith (join '' '' (drop 3 argv_smith))
         = Inl ''Error: send failed''"
    by (simp_all add: example_args_ok world_send_fails_def reply_fail_def)
  have k: "args_ok argv_smith" "Ready \<notin> set [Qr ''token'']"
      "getChats_reply world_both_fail = Inr [dr_smith]"
      "sendMessage_reply world_both_fail dr_smith (join '' '' (drop 3 argv_smith))
         = Inl ''Error: send failed''"
    by (simp_all add: example_args_ok world_both_fail_def reply_fail_def)
  have d: "destroy_reply world_send_fails = None"
    by (simp add: world_send_fails_def)
  note t = send_failure_exit_codes [OF h, of "[]"]
  note u = send_failure_exit_codes [OF k, of "[]"]
  from t smith_found(2)
  have e0: "run_enhanced argv_smith world_send_fails ([Qr ''token''] @ Ready # [])
      = (prelude_enhanced [Qr ''token''] @
           [Get_chats, Send_message dr_smith (join '' '' (drop 3 argv_smith)),
            Console_error [''Failed to send message:'', ''Error: send failed''],
            Destroy, Process_exit 1],
         Exited 1)"
    and e2: "destroys (fst (run_enhanced argv_smith world_send_fails
      ([Qr ''token''] @ Ready # []))) = 1"
    by blast+
  from e0
  have e1: "snd (run_enhanced argv_smith world_send_fails ([Qr ''token''] @ Ready # []))
      = Exited 1"
    by (simp only: snd_conv)
  from t smith_found(1) d
  have m0: "run_minimal argv_smith world_send_fails ([Qr ''token''] @ Ready # [])
      = (prelude_minimal [Qr ''token''] @
           [Get_chats, Send_message dr_smith (join '' '' (drop 3 argv_smith)),
            Console_error [''Failed to send message:'', ''Error: send failed''],
            Destroy, Process_exit 0],
         Exited 0)"
    and m2: "destroys (fst (run_minimal argv_smith world_send_fails
      ([Qr ''token''] @ Ready # []))) = 1"
    by blast+
  from m0
  have m1: "snd (run_minimal argv_smith world_send_fails ([Qr ''token''] @ Ready # []))
      = Exited 0"
    by (simp only: snd_conv)
  from u smith_found(1)
  have m3: "destroys (fst (run_minimal argv_smith world_both_fail
      ([Qr ''token''] @ Ready # []))) = 1"
    by blast
  from h k(3,4) smith_found d e1 e2 m1 m2 m3 show ?thesis
    by (intro conjI) assumption+
qed

subsection \<open>A release step that raises\<close>

text \<open>
  \<^verbatim>\<open>gracefulExit\<close> of the enhanced variant wraps \<^verbatim>\<open>client.destroy()\<close> in a
  \<^verbatim>\<open>try\<close> with an empty \<^verbatim>\<open>catch\<close>, so the run does not depend on how the release
  ends (\<open>run_enhanced_ignores_destroy_reply\<close>), the release is attempted once and the
  run ends with the exit code of its path (\<open>enhanced_release_once\<close>). The
  \<^verbatim>\<open>finally\<close> block of the minimal variant awaits \<^verbatim>\<open>client.destroy()\<close> unguarded:
  the release is attempted once on every path too, but when it rejects, the call
  \<^verbatim>\<open>process.exit(0)\<close> behind it is never reached and the promise of the handler is
  rejected (\<open>minimal_release_once\<close>). The three evaluations below show this one defect
  on the three exit paths.
\<close>

text \<open>
  Claim C2: when no chat matches by name or by normalized numeric identifier, no send
  call is issued, the enhanced variant exits with code 2 and the minimal variant logs the
  error and exits with code 0 (\<open>not_found_runs\<close> gives both for every such run in which
  the release returns). Evaluated on a not-found run whose release rejects: the enhanced
  variant exits with code 2, the minimal variant logs the error, attempts the release and
  does not exit.
\<close>

theorem not_found_exit_lost_when_release_rejects:
  "getChats_reply world_destroy_fails = Inr [dr_smith]
   \<and> name dr_smith \<noteq> argv_unknown ! 2
   \<and> id_user dr_smith \<noteq> normalize_recipient (argv_unknown ! 2)
   \<and> run_minimal argv_unknown world_destroy_fails [Ready]
       = (fst client_setup @ [Get_chats, Console_error [not_found_text ''Nobody''], Destroy],
          Rejected ''Error: destroy failed'')
   \<and> run_enhanced argv_unknown world_destroy_fails [Ready]
       = (fst client_setup @
            [Get_chats, Console_error [not_found_text ''Nobody''], Destroy, Process_exit 2],
          Exited 2)"
proof -
  have g: "getChats_reply world_destroy_fails = Inr [dr_smith]"
    and d: "destroy_reply world_destroy_fails = Some ''Error: destroy failed''"
    by (simp_all add: world_destroy_fails_def)
  have n: "name dr_smith \<noteq> argv_unknown ! 2"
      "id_user dr_smith \<noteq> normalize_recipient (argv_unknown ! 2)"
    by (simp_all add: dr_smith_def example_args normalize_recipient_def)
  then have a: "\<forall>x\<in>set [dr_smith]. name x \<noteq> argv_unknown ! 2
      \<and> id_user x \<noteq> normalize_recipient (argv_unknown ! 2)"
    by simp
  have e: "Ready \<notin> set []" by simp
  note r = not_found_runs [OF example_args_ok(2) e g a, of "[]"]
  from r(1) have re: "run_enhanced argv_unknown world_destroy_fails [Ready]
       = (fst client_setup @
            [Get_chats, Console_error [not_found_text ''Nobody''], Destroy, Process_exit 2],
          Exited 2)"
    by (simp add: prelude_empty example_args)
  from r(2) d have rm: "run_minimal argv_unknown world_destroy_fails [Ready]
       = (fst client_setup @ [Get_chats, Console_error [not_found_text ''Nobody''], Destroy],
          Rejected ''Error: destroy failed'')"
    by (simp add: prelude_empty example_args)
  from g n re rm show ?thesis by simp
qed

text \<open>
  Claim C4: after a successful send the release is invoked exactly once and the process
  exits with code 0, the enhanced variant after a delay of 3000 milliseconds
  (\<open>successful_send_runs\<close> gives this for every such run, the minimal variant when the
  release returns). Evaluated on a run with a successful send whose release rejects: the
  enhanced variant waits, releases and exits with code 0; the minimal variant releases
  once and does not exit.
\<close>

theorem successful_send_exit_lost_when_release_rejects:
  "sendMessage_reply world_destroy_fails dr_smith ''Patient stable'' = Inr ''3EB0A1''
   \<and> run_minimal argv_smith world_destroy_fails [Ready]
       = (fst client_setup @
            [Get_chats, Send_message dr_smith ''Patient stable'',
             Console_log [''Message sent:'', ''Patient stable''], Destroy],
          Rejected ''Error: destroy failed'')
   \<and> run_enhanced argv_smith world_destroy_fails [Ready]
       = (fst client_setup @
            [Get_chats, Send_message dr_smith ''Patient stable'',
             Console_log [''Message queued:'', ''3EB0A1''], Delay 3000, Destroy, Process_exit 0],
          Exited 0)"
proof -
  have g: "getChats_reply world_destroy_fails = Inr [dr_smith]"
    and d: "destroy_reply world_destroy_fails = Some ''Error: destroy failed''"
    and s: "sendMessage_reply world_destroy_fails dr_smith (join '' '' (drop 3 argv_smith))
              = Inr ''3EB0A1''"
    by (simp_all add: world_destroy_fails_def reply_ok_def)
  have e: "Ready \<notin> set []" by simp
  note r = successful_send_runs [OF example_args_ok(1) e g s, of "[]"]
  from r(1) [OF smith_found(2)]
  have re: "run_enhanced argv_smith world_destroy_fails [Ready]
       = (fst client_setup @
            [Get_chats, Send_message dr_smith ''Patient stable'',
             Console_log [''Message queued:'', ''3EB0A1''], Delay 3000, Destroy, Process_exit 0],
          Exited 0)"
    by (simp add: prelude_empty example_args)
  from r(2) [OF smith_found(1)] d
  have rm: "run_minimal argv_smith world_destroy_fails [Ready]
       = (fst client_setup @
            [Get_chats, Send_message dr_smith ''Patient stable'',
             Console_log [''Message sent:'', ''Patient stable''], Destroy],
          Rejected ''Error: destroy failed'')"
    by (simp add: prelude_empty example_args)
  from s re rm show ?thesis by (simp add: example_args)
qed

text \<open>
  Claim C5: on every exit path after the session was created the release is attempted
  exactly once, and an error of the release is swallowed, so that the process still ends
  with the exit code of the path. Evaluated on a run whose send call and release both
  reject: the enhanced variant swallows the error of the release and exits with code 1;
  in the minimal variant the error of the release leaves the handler and
  \<^verbatim>\<open>process.exit\<close> is not called.
\<close>

theorem release_error_escapes_minimal_finally:
  "destroy_reply world_both_fail = Some ''Error: destroy failed''
   \<and> run_minimal argv_smith world_both_fail [Ready]
       = (fst client_setup @
            [Get_chats, Send_message dr_smith ''Patient stable'',
             Console_error [''Failed to send message:'', ''Error: send failed''], Destroy],
          Rejected ''Error: destroy failed'')
   \<and> run_enhanced argv_smith world_both_fail [Ready]
       = (fst client_setup @
            [Get_chats, Send_message dr_smith ''Patient stable'',
             Console_error [''Failed to send message:'', ''Error: send failed''],
             Destroy, Process_exit 1],
          Exited 1)"
proof -
  have g: "getChats_reply world_both_fail = Inr [dr_smith]"
    and d: "destroy_reply world_both_fail = Some ''Error: destroy failed''"
    and s: "sendMessage_reply world_both_fail dr_smith (join '' '' (drop 3 argv_smith))
              = Inl ''Error: send failed''"
    by (simp_all add: world_both_fail_def reply_fail_def)
  from run_enhanced_first_ready
    [OF example_args_ok(1) on_ready_enhanced_send_rejected [OF g smith_found(2) s]]
  have re: "run_enhanced argv_smith world_both_fail [Ready]
       = (fst client_setup @
            [Get_chats, Send_message dr_smith ''Patient stable'',
             Console_error [''Failed to send message:'', ''Error: send failed''],
             Destroy, Process_exit 1],
          Exited 1)"
    by (simp add: example_args)
  from run_minimal_first_ready
    [OF example_args_ok(1) on_ready_minimal_send_rejected [OF g smith_found(1) s]] d
  have rm: "run_minimal argv_smith world_both_fail [Ready]
       = (fst client_setup @
            [Get_chats, Send_message dr_smith ''Patient stable'',
             Console_error [''Failed to send message:'', ''Error: send failed''], Destroy],
          Rejected ''Error: destroy failed'')"
    by (simp add: example_args)
  from d re rm show ?thesis by simp
qed

end
